theory Spec2Isabelle
  imports Main "HOL-Library.Sublist" "HOL-Library.Char_ord" "HOL-Library.List_Lexorder"
begin

section \<open>Values, rows and dictionaries\<close>

text \<open>
  The values that travel between SQLite and the Python code: \<open>None\<close> (SQL NULL), integers,
  strings, dictionaries (insertion-ordered, as association lists) and decoded images.
  Strings are byte strings; the identifiers the reader works with are ASCII. REAL and
  BLOB values are not modelled.
\<close>

datatype 'img pyval =
    PNone
  | PInt int
  | PStr string
  | PDict "(string \<times> 'img pyval) list"
  | PImage 'img

type_synonym 'img pydict = "(string \<times> 'img pyval) list"

text \<open>Python truthiness, as used by \<open>if translation:\<close> and \<open>if limit:\<close>.\<close>

fun truthy :: "'img pyval \<Rightarrow> bool" where
  "truthy PNone = False"
| "truthy (PInt i) = (i \<noteq> 0)"
| "truthy (PStr s) = (s \<noteq> [])"
| "truthy (PDict d) = (d \<noteq> [])"
| "truthy (PImage _) = True"

text \<open>\<open>d[k] = v\<close>: an existing key keeps its position, a new key is appended.\<close>

fun dict_set :: "('k \<times> 'v) list \<Rightarrow> 'k \<Rightarrow> 'v \<Rightarrow> ('k \<times> 'v) list" where
  "dict_set [] k v = [(k, v)]"
| "dict_set ((k', v') # d) k v = (if k' = k then (k, v) # d else (k', v') # dict_set d k v)"

definition dict_get :: "('k \<times> 'v) list \<Rightarrow> 'k \<Rightarrow> 'v option" where
  "dict_get d k = map_of d k"

definition dict_keys :: "('k \<times> 'v) list \<Rightarrow> 'k list" where
  "dict_keys d = map fst d"

text \<open>The exceptions the code can raise.\<close>

datatype error =
    KeyError string
  | OperationalError string
  | DatabaseError
  | ProgrammingError
  | OverflowError
  | IndexError
  | ValueError string
  | StopIteration
  | NotImplementedError

text \<open>Sequencing of calls that may raise.\<close>

definition ebind :: "error + 'a \<Rightarrow> ('a \<Rightarrow> error + 'b) \<Rightarrow> error + 'b" where
  "ebind m f = (case m of Inl e \<Rightarrow> Inl e | Inr x \<Rightarrow> f x)"

fun efold :: "('a \<Rightarrow> 's \<Rightarrow> error + 's) \<Rightarrow> 'a list \<Rightarrow> 's \<Rightarrow> error + 's" where
  "efold f [] s = Inr s"
| "efold f (x # xs) s = (case f x s of Inl e \<Rightarrow> Inl e | Inr s' \<Rightarrow> efold f xs s')"

fun emap :: "('a \<Rightarrow> error + 'b) \<Rightarrow> 'a list \<Rightarrow> error + 'b list" where
  "emap f [] = Inr []"
| "emap f (x # xs) =
     (case f x of
        Inl e \<Rightarrow> Inl e
      | Inr y \<Rightarrow> (case emap f xs of Inl e \<Rightarrow> Inl e | Inr ys \<Rightarrow> Inr (y # ys)))"

section \<open>Python string operations\<close>

definition lower_char :: "char \<Rightarrow> char" where
  "lower_char c =
     (if CHR ''A'' \<le> c \<and> c \<le> CHR ''Z'' then char_of (of_char c + (32::nat)) else c)"

definition lower :: "string \<Rightarrow> string" where
  "lower s = map lower_char s"

definition is_letter :: "char \<Rightarrow> bool" where
  "is_letter c = ((CHR ''a'' \<le> c \<and> c \<le> CHR ''z'') \<or> (CHR ''A'' \<le> c \<and> c \<le> CHR ''Z''))"

definition is_digit :: "char \<Rightarrow> bool" where
  "is_digit c = (CHR ''0'' \<le> c \<and> c \<le> CHR ''9'')"

text \<open>\<open>sub in s\<close> for strings.\<close>

fun contains :: "string \<Rightarrow> string \<Rightarrow> bool" where
  "contains sub [] = (sub = [])"
| "contains sub (c # cs) = (prefix sub (c # cs) \<or> contains sub cs)"

text \<open>\<open>s.split(sep)\<close> for a non-empty separator \<open>sep\<close>; \<open>acc\<close> is the piece being read,
  reversed.\<close>

function split_from :: "string \<Rightarrow> string \<Rightarrow> string \<Rightarrow> string list" where
  "split_from sep acc [] = [rev acc]"
| "split_from sep acc (c # cs) =
     (if sep \<noteq> [] \<and> prefix sep (c # cs)
      then rev acc # split_from sep [] (drop (length sep) (c # cs))
      else split_from sep (c # acc) cs)"
  by pat_completeness auto
termination
  by (relation "measure (\<lambda>(sep, acc, s). length s)") auto

definition split :: "string \<Rightarrow> string \<Rightarrow> string list" where
  "split s sep = split_from sep [] s"

text \<open>\<open>s.replace(old, new)\<close> for a non-empty \<open>old\<close>.\<close>

function replace :: "string \<Rightarrow> string \<Rightarrow> string \<Rightarrow> string" where
  "replace [] old new = []"
| "replace (c # cs) old new =
     (if old \<noteq> [] \<and> prefix old (c # cs)
      then new @ replace (drop (length old) (c # cs)) old new
      else c # replace cs old new)"
  by pat_completeness auto
termination
  by (relation "measure (\<lambda>(s, old, new). length s)") auto

text \<open>\<open>sep.join(xs)\<close>.\<close>

fun join :: "string \<Rightarrow> string list \<Rightarrow> string" where
  "join sep [] = []"
| "join sep [x] = x"
| "join sep (x # y # ys) = x @ sep @ join sep (y # ys)"

text \<open>\<open>str(n)\<close> for an integer and \<open>s.zfill(width)\<close>, which pads after a leading sign.\<close>

definition digit_char :: "nat \<Rightarrow> char" where
  "digit_char d = char_of (48 + d)"

function str_nat :: "nat \<Rightarrow> string" where
  "str_nat n = (if n < 10 then [digit_char n] else str_nat (n div 10) @ [digit_char (n mod 10)])"
  by pat_completeness auto
termination
  by (relation "measure id") auto

definition str_int :: "int \<Rightarrow> string" where
  "str_int i = (if i < 0 then CHR ''-'' # str_nat (nat (- i)) else str_nat (nat i))"

definition zfill :: "string \<Rightarrow> nat \<Rightarrow> string" where
  "zfill s width =
     (if length s \<ge> width then s
      else (case s of
              c # cs \<Rightarrow>
                (if c = CHR ''+'' \<or> c = CHR ''-''
                 then c # replicate (width - length s) CHR ''0'' @ cs
                 else replicate (width - length s) CHR ''0'' @ s)
            | [] \<Rightarrow> replicate width CHR ''0''))"

section \<open>The databases\<close>

text \<open>
  SQLite values, with the order \<open>ORDER BY\<close> uses (NULL first, then integers, then text
  compared bytewise) and the equality of \<open>WHERE col = ?\<close>, which NULL never satisfies.
\<close>

datatype sqlval = SNull | SInt int | SText string

fun sql_less :: "sqlval \<Rightarrow> sqlval \<Rightarrow> bool" where
  "sql_less SNull SNull = False"
| "sql_less SNull _ = True"
| "sql_less (SInt a) (SInt b) = (a < b)"
| "sql_less (SInt _) (SText _) = True"
| "sql_less (SText a) (SText b) = (a < b)"
| "sql_less _ _ = False"

definition sql_eq :: "sqlval \<Rightarrow> sqlval \<Rightarrow> bool" where
  "sql_eq a b = (a \<noteq> SNull \<and> a = b)"

fun of_sql :: "sqlval \<Rightarrow> 'img pyval" where
  "of_sql SNull = PNone"
| "of_sql (SInt i) = PInt i"
| "of_sql (SText s) = PStr s"

text \<open>Binding a Python value to a \<open>?\<close> parameter: an integer outside 64 bits raises
  OverflowError, a dictionary or an image raises ProgrammingError.\<close>

fun to_sql :: "'img pyval \<Rightarrow> error + sqlval" where
  "to_sql PNone = Inr SNull"
| "to_sql (PInt i) =
     (if - (2 ^ 63) \<le> i \<and> i < 2 ^ 63 then Inr (SInt i) else Inl OverflowError)"
| "to_sql (PStr s) = Inr (SText s)"
| "to_sql (PDict _) = Inl ProgrammingError"
| "to_sql (PImage _) = Inl ProgrammingError"

text \<open>
  The identifier columns \<open>GrpId\<close>, \<open>TitleId\<close>, \<open>LocId\<close> and \<open>Id\<close> are taken to be
  declared INTEGER, as the game declares them. Against such a column SQLite converts a
  text parameter that reads as a number before it compares; for NULL, an integer and a
  text that does not read as a number the comparison is \<open>sql_eq\<close>. A text can read as a
  number only when, after leading white space and an optional sign, it starts with a
  digit or a point: \<open>plain_param\<close> holds of the parameters for which \<open>sql_eq\<close> is
  SQLite's comparison, and the statements below about which rows a query finds are made
  for such parameters.
\<close>

definition is_space :: "char \<Rightarrow> bool" where
  "is_space c = (c = CHR '' '' \<or> (9 \<le> (of_char c :: nat) \<and> (of_char c :: nat) \<le> 13))"

definition numeric_text :: "string \<Rightarrow> bool" where
  "numeric_text s =
     (case dropWhile is_space s of
        [] \<Rightarrow> False
      | c # cs \<Rightarrow>
          (case (if c = CHR ''+'' \<or> c = CHR ''-'' then cs else c # cs) of
             [] \<Rightarrow> False
           | d # ds \<Rightarrow> is_digit d \<or> d = CHR ''.''))"

definition plain_param :: "sqlval \<Rightarrow> bool" where
  "plain_param v = (case v of SText s \<Rightarrow> \<not> numeric_text s | _ \<Rightarrow> True)"

definition plain_id :: "'img pyval \<Rightarrow> bool" where
  "plain_id v = (case v of PStr s \<Rightarrow> \<not> numeric_text s | _ \<Rightarrow> True)"

text \<open>
  SQLite's \<open>LIKE\<close>: \<open>%\<close> matches any run of characters, \<open>_\<close> any single character, and
  ASCII letters match without regard to case. The first argument is the pattern.
\<close>

fun like_match :: "string \<Rightarrow> string \<Rightarrow> bool" where
  "like_match [] s = (s = [])"
| "like_match (p # ps) [] = (p = CHR ''%'' \<and> like_match ps [])"
| "like_match (p # ps) (c # cs) =
     (if p = CHR ''%'' then like_match ps (c # cs) \<or> like_match (p # ps) cs
      else (p = CHR ''_'' \<or> lower_char p = lower_char c) \<and> like_match ps cs)"

text \<open>
  A row of a localization table, a row of \<open>Enums\<close>, and a row of \<open>Cards\<close> or
  \<open>Abilities\<close> as \<open>dict_factory\<close> builds it for \<open>SELECT *\<close>: column name to value, in
  column order.
\<close>

record loc_row =
  LocId :: sqlval
  Loc :: sqlval
  Formatted :: sqlval

record enum_row =
  EnumType :: sqlval
  EnumValue :: sqlval
  EnumLocId :: sqlval

type_synonym row = "(string \<times> sqlval) list"

text \<open>
  What a connection reads. \<open>is_database\<close> tells whether the file is an SQLite database:
  \<open>sqlite3.connect\<close> opens any file, and on one that is not a database every query
  raises DatabaseError. \<open>loc_tables\<close> lists, in catalog order, the tables of
  \<open>sqlite_master\<close> other than \<open>Cards\<close>, \<open>Abilities\<close> and \<open>Enums\<close>, each read with the
  columns \<open>LocId\<close>, \<open>Loc\<close>, \<open>Formatted\<close>; the three fixed tables are \<open>None\<close> when the
  file does not have them (the query then fails with "no such table"). The columns the
  queries name are assumed to exist in an existing table.
\<close>

record database =
  is_database :: bool
  loc_tables :: "(string \<times> loc_row list) list"
  Cards :: "row list option"
  Abilities :: "row list option"
  Enums :: "enum_row list option"

text \<open>The fields of \<open>mtga_reader\<close>.\<close>

record 'img reader =
  mtga_root_dir :: string
  mtga_data_dir :: string
  mtga_assets_dir :: string
  mtga_raw_dir :: string
  lang :: string
  lang_table :: "string option"
  default_lang_table :: "string option"
  connections :: "(string \<times> database) list"
  enums :: "(sqlval \<times> (sqlval \<times> 'img pyval) list) list"

text \<open>A table name formatted into the SQL text by an f-string: \<open>None\<close> prints as
  \<open>None\<close>.\<close>

definition fmt_table :: "string option \<Rightarrow> string" where
  "fmt_table t = (case t of None \<Rightarrow> ''None'' | Some n \<Rightarrow> n)"

text \<open>
  The table name is pasted into the SQL text unquoted. The statement names one table
  when the pasted text is a single identifier token: a letter or underscore followed by
  letters, digits, underscores and dollar signs (bytes above 127 count as letters).
  SQLite looks the table up without regard to the case of ASCII letters. Any other text
  makes the statement fail in the model, as a hyphen does in SQLite: the tokens
  \<open>Localizations_en - US\<close> do not parse, and with \<open>--\<close> the rest of the statement is a
  comment and the parameter cannot be bound. Texts that SQLite would read as more than
  a table name (an alias after a space, a quoted name, a keyword) are outside the model;
  \<open>localization_name\<close> holds of the names for which the model is exact: those that the
  catalog query of \<open>set_language\<close> can return and that are made of ASCII letters,
  digits, underscores and hyphens.
\<close>

definition word_char :: "char \<Rightarrow> bool" where
  "word_char c =
     (is_letter c \<or> is_digit c \<or> c = CHR ''_'' \<or> c = CHR ''$'' \<or> 128 \<le> (of_char c :: nat))"

definition sql_word :: "string \<Rightarrow> bool" where
  "sql_word s =
     (case s of
        [] \<Rightarrow> False
      | c # cs \<Rightarrow> \<not> is_digit c \<and> c \<noteq> CHR ''$'' \<and> list_all word_char (c # cs))"

definition name_char :: "char \<Rightarrow> bool" where
  "name_char c = (is_letter c \<or> is_digit c \<or> c = CHR ''_'' \<or> c = CHR ''-'')"

definition localization_name :: "string \<Rightarrow> bool" where
  "localization_name s = (like_match ''Localizations_%'' s \<and> list_all name_char s)"

definition find_table :: "database \<Rightarrow> string \<Rightarrow> loc_row list option" where
  "find_table db name = map_of (map (\<lambda>(n, rows). (lower n, rows)) (loc_tables db)) (lower name)"

text \<open>The rows a statement \<open>SELECT ... FROM {name} ...\<close> reads, or the exception of
  \<open>execute\<close>.\<close>

definition read_table :: "database \<Rightarrow> string \<Rightarrow> error + loc_row list" where
  "read_table db name =
     (if \<not> is_database db then Inl DatabaseError
      else if \<not> sql_word name then Inl (OperationalError ''syntax error'')
      else (case find_table db name of
              None \<Rightarrow> Inl (OperationalError (''no such table: '' @ name))
            | Some rows \<Rightarrow> Inr rows))"

section \<open>Text resolver\<close>

text \<open>
  \<open>ORDER BY Formatted DESC LIMIT 1\<close>: the row with the greatest \<open>Formatted\<close>; among
  equal ones the first in scan order (SQLite leaves the order of ties open).
\<close>

fun top_formatted :: "loc_row list \<Rightarrow> loc_row option" where
  "top_formatted [] = None"
| "top_formatted (r # rs) =
     (case top_formatted rs of
        None \<Rightarrow> Some r
      | Some b \<Rightarrow> if sql_less (Formatted r) (Formatted b) then Some b else Some r)"

text \<open>\<open>SELECT Loc FROM t WHERE LocId = ? ORDER BY Formatted DESC LIMIT 1\<close>, then
  \<open>fetchone\<close>.\<close>

definition select_loc :: "loc_row list \<Rightarrow> sqlval \<Rightarrow> loc_row option" where
  "select_loc rows tid = top_formatted (filter (\<lambda>r. sql_eq (LocId r) tid) rows)"

definition lookup_localization ::
  "'img reader \<Rightarrow> 'img pyval \<Rightarrow> string option \<Rightarrow> error + 'img pyval" where
  "lookup_localization st text_id table_name =
     (case dict_get (connections st) ''CardDatabase'' of
        None \<Rightarrow> Inl (KeyError ''CardDatabase'')
      | Some db \<Rightarrow>
          (case read_table db (fmt_table table_name) of
             Inl e \<Rightarrow> Inl e
           | Inr rows \<Rightarrow>
               (case to_sql text_id of
                  Inl e \<Rightarrow> Inl e
                | Inr tid \<Rightarrow>
                    Inr (case select_loc rows tid of
                           None \<Rightarrow> PNone
                         | Some r \<Rightarrow> of_sql (Loc r)))))"

text \<open>
  The body of the \<open>try\<close> block of \<open>get_card_translation_id\<close>: \<open>Inl e\<close> when it raises,
  \<open>Inr (Some v)\<close> when it returns \<open>v\<close>, \<open>Inr None\<close> when it falls out of the block.
\<close>

definition translation_try :: "'img reader \<Rightarrow> 'img pyval \<Rightarrow> error + 'img pyval option" where
  "translation_try st text_id =
     (case lookup_localization st text_id (lang_table st) of
        Inl e \<Rightarrow> Inl e
      | Inr translation \<Rightarrow>
          if truthy translation then Inr (Some translation)
          else if (case default_lang_table st of None \<Rightarrow> False | Some n \<Rightarrow> n \<noteq> [])
                  \<and> default_lang_table st \<noteq> lang_table st
          then (case lookup_localization st text_id (default_lang_table st) of
                  Inl e \<Rightarrow> Inl e
                | Inr fallback \<Rightarrow> if truthy fallback then Inr (Some fallback) else Inr None)
          else Inr None)"

definition get_card_translation_id :: "'img reader \<Rightarrow> 'img pyval \<Rightarrow> error + 'img pyval" where
  "get_card_translation_id st text_id =
     (if text_id = PNone then Inr PNone
      else (case translation_try st text_id of
              Inl e \<Rightarrow> Inr text_id
            | Inr (Some v) \<Rightarrow> Inr v
            | Inr None \<Rightarrow> Inr text_id))"

text \<open>The identifier has a row in the named localization table.\<close>

definition has_row :: "'img reader \<Rightarrow> 'img pyval \<Rightarrow> string option \<Rightarrow> bool" where
  "has_row st text_id table_name =
     (case dict_get (connections st) ''CardDatabase'' of
        None \<Rightarrow> False
      | Some db \<Rightarrow>
          (case read_table db (fmt_table table_name) of
             Inl e \<Rightarrow> False
           | Inr rows \<Rightarrow>
               (case to_sql text_id of
                  Inl e \<Rightarrow> False
                | Inr tid \<Rightarrow> list_ex (\<lambda>r. sql_eq (LocId r) tid) rows)))"

section \<open>Language resolver\<close>

definition normalize :: "string \<Rightarrow> string" where
  "normalize name = lower (replace (replace name ''-'' []) ''_'' [])"

text \<open>
  \<open>SELECT name FROM sqlite_master WHERE type='table' AND name LIKE 'Localizations_%'\<close>,
  in catalog order. The fixed tables \<open>Cards\<close>, \<open>Abilities\<close> and \<open>Enums\<close> do not match the
  pattern.
\<close>

definition available_tables :: "database \<Rightarrow> string list" where
  "available_tables db = filter (like_match ''Localizations_%'') (map fst (loc_tables db))"

text \<open>
  The dictionary comprehension
  \<open>{normalize(name.split('Localizations_')[1]): name for name in available_tables}\<close>;
  the index raises IndexError when the name does not hold the separator.
\<close>

fun build_langs :: "string list \<Rightarrow> (string \<times> string) list \<Rightarrow> error + (string \<times> string) list" where
  "build_langs [] d = Inr d"
| "build_langs (name # names) d =
     (case split name ''Localizations_'' of
        p0 # code # rest \<Rightarrow> build_langs names (dict_set d (normalize code) name)
      | _ \<Rightarrow> Inl IndexError)"

definition not_available :: "string \<Rightarrow> (string \<times> string) list \<Rightarrow> string" where
  "not_available lng available_langs =
     ''Language '' @ [CHR 0x27] @ lng @ [CHR 0x27] @ '' not available. Options: ''
       @ join '', '' (sort (dict_keys available_langs))"

text \<open>
  \<open>set_language\<close> returns the matched table or the exception raised, with the reader as
  the call leaves it: \<open>default_lang_table\<close> is assigned before the requested language is
  checked.
\<close>

definition set_language :: "'img reader \<Rightarrow> string \<Rightarrow> (error + string) \<times> 'img reader" where
  "set_language st lng =
     (case dict_get (connections st) ''CardDatabase'' of
        None \<Rightarrow> (Inl (KeyError ''CardDatabase''), st)
      | Some db \<Rightarrow>
          if \<not> is_database db then (Inl DatabaseError, st)
          else
          (case build_langs (available_tables db) [] of
             Inl e \<Rightarrow> (Inl e, st)
           | Inr available_langs \<Rightarrow>
               if available_langs = []
               then (Inl (ValueError ''No localization tables found in CardDatabase.''), st)
               else
                 (let normalized_target = normalize lng;
                      matched_table = dict_get available_langs normalized_target;
                      dflt = (case dict_get available_langs (normalize ''enUS'') of
                                Some n \<Rightarrow> if n \<noteq> [] then Inr n
                                  else (case available_tables db of
                                          [] \<Rightarrow> Inl StopIteration | n' # ns \<Rightarrow> Inr n')
                              | None \<Rightarrow>
                                  (case available_tables db of
                                     [] \<Rightarrow> Inl StopIteration | n' # ns \<Rightarrow> Inr n'))
                  in case dflt of
                       Inl e \<Rightarrow> (Inl e, st)
                     | Inr d \<Rightarrow>
                         (case matched_table of
                            None \<Rightarrow>
                              (Inl (ValueError (not_available lng available_langs)),
                               st\<lparr>default_lang_table := Some d\<rparr>)
                          | Some t \<Rightarrow>
                              if t = []
                              then (Inl (ValueError (not_available lng available_langs)),
                                    st\<lparr>default_lang_table := Some d\<rparr>)
                              else (Inr t,
                                    st\<lparr>default_lang_table := Some d, lang := lng,
                                       lang_table := Some t\<rparr>)))))"

text \<open>Two identifiers that differ only in letter case or in hyphen and underscore
  separators.\<close>

definition is_sep :: "char \<Rightarrow> bool" where
  "is_sep c = (c = CHR ''-'' \<or> c = CHR ''_'')"

fun same_ident :: "string \<Rightarrow> string \<Rightarrow> bool" where
  "same_ident [] [] = True"
| "same_ident (a # as) [] = (is_sep a \<and> same_ident as [])"
| "same_ident [] (b # bs) = (is_sep b \<and> same_ident [] bs)"
| "same_ident (a # as) (b # bs) =
     (if is_sep a then same_ident as (b # bs)
      else if is_sep b then same_ident (a # as) bs
      else lower_char a = lower_char b \<and> same_ident as bs)"

definition selected_table :: "(error + string) \<times> 'img reader \<Rightarrow> string option" where
  "selected_table r = (case fst r of Inl e \<Rightarrow> None | Inr t \<Rightarrow> Some t)"

section \<open>Files\<close>

text \<open>
  The files under the game directory. A file is an SQLite database or an asset bundle,
  given by what \<open>UnityPy.load(...).container\<close> lists: the internal path of each asset
  with its type name and the raster image that \<open>obj.read()\<close>, the PNG round trip and
  \<open>cv2.imdecode\<close> produce for it. The unpacking library and the image codec are taken as
  total. Creation times only matter through their order.
\<close>

record 'img asset =
  asset_type :: string
  asset_image :: 'img

datatype 'img content =
    SqliteFile database
  | BundleFile "(string \<times> 'img asset) list"

record 'img file_entry =
  file_name :: string
  file_ctime :: int
  file_content :: "'img content"

text \<open>\<open>os.path.join\<close> of two components, with the POSIX separator.\<close>

definition os_path_join :: "string \<Rightarrow> string \<Rightarrow> string" where
  "os_path_join a b =
     (if prefix ''/'' b then b
      else if a = [] \<or> suffix ''/'' a then a @ b
      else a @ ''/'' @ b)"

text \<open>
  \<open>glob.glob(pattern)\<close> over the files: \<open>*\<close> matches any run of characters within one
  path component, \<open>?\<close> one such character, every other character itself. Bracket
  classes and the special treatment of names with a leading dot are not modelled; the
  files come in the order the directory scan yields them.
\<close>

fun glob_match :: "string \<Rightarrow> string \<Rightarrow> bool" where
  "glob_match [] s = (s = [])"
| "glob_match (p # ps) [] = (p = CHR ''*'' \<and> glob_match ps [])"
| "glob_match (p # ps) (c # cs) =
     (if p = CHR ''*''
      then glob_match ps (c # cs) \<or> (c \<noteq> CHR ''/'' \<and> glob_match (p # ps) cs)
      else if p = CHR ''?'' then c \<noteq> CHR ''/'' \<and> glob_match ps cs
      else p = c \<and> glob_match ps cs)"

definition glob_glob :: "'img file_entry list \<Rightarrow> string \<Rightarrow> 'img file_entry list" where
  "glob_glob fs pattern = filter (\<lambda>f. glob_match pattern (file_name f)) fs"

text \<open>\<open>sqlite3.connect\<close>: a file that is not a database opens, and every query on it
  raises DatabaseError.\<close>

definition connect :: "'img file_entry \<Rightarrow> database" where
  "connect f =
     (case file_content f of
        SqliteFile db \<Rightarrow> db
      | BundleFile c \<Rightarrow>
          \<lparr>is_database = False, loc_tables = [], Cards = None, Abilities = None,
           Enums = None\<rparr>)"

definition container :: "'img file_entry \<Rightarrow> (string \<times> 'img asset) list" where
  "container f = (case file_content f of SqliteFile db \<Rightarrow> [] | BundleFile c \<Rightarrow> c)"

section \<open>Construction of the reader\<close>

text \<open>\<open>max(files, key=os.path.getctime)\<close> keeps the first of the most recent files.\<close>

fun latest :: "'img file_entry \<Rightarrow> 'img file_entry list \<Rightarrow> 'img file_entry" where
  "latest best [] = best"
| "latest best (f # fs) = latest (if file_ctime best < file_ctime f then f else best) fs"

definition dbs :: "string list" where
  "dbs = [''ArtCropDatabase'', ''CardDatabase'', ''ClientLocalization'', ''altArtCredits'',
          ''altFlavorTexts'', ''credits'']"

text \<open>The loop of \<open>get_databases\<close>; \<open>max\<close> of no file raises ValueError.\<close>

fun connect_all ::
  "'img file_entry list \<Rightarrow> string \<Rightarrow> string list \<Rightarrow> (string \<times> database) list
     \<Rightarrow> error + (string \<times> database) list" where
  "connect_all fs raw_dir [] conns = Inr conns"
| "connect_all fs raw_dir (db # rest) conns =
     (case glob_glob fs (os_path_join raw_dir (''Raw_'' @ db @ ''_*.mtga'')) of
        [] \<Rightarrow> Inl (ValueError ''max() arg is an empty sequence'')
      | f # others \<Rightarrow> connect_all fs raw_dir rest (dict_set conns db (connect (latest f others))))"

definition get_databases :: "'img file_entry list \<Rightarrow> 'img reader \<Rightarrow> bool \<times> 'img reader" where
  "get_databases fs st =
     (case connect_all fs (mtga_raw_dir st) dbs (connections st) of
        Inl e \<Rightarrow> (False, st\<lparr>connections := []\<rparr>)
      | Inr conns \<Rightarrow> (True, st\<lparr>connections := conns\<rparr>))"

text \<open>
  \<open>Select "Type" FROM Enums GROUP BY "Type"\<close>: each type once, in the order of the
  values (the order SQLite's grouping yields in practice).
\<close>

fun insert_type :: "sqlval \<Rightarrow> sqlval list \<Rightarrow> sqlval list" where
  "insert_type t [] = [t]"
| "insert_type t (u # us) =
     (if t = u then u # us
      else if sql_less t u then t # u # us
      else u # insert_type t us)"

definition group_types :: "enum_row list \<Rightarrow> sqlval list" where
  "group_types rows = fold (\<lambda>r acc. insert_type (EnumType r) acc) rows []"

text \<open>The inner loop of \<open>get_enums\<close> for one enum type, on the dictionary stored for
  it.\<close>

definition fill_enum ::
  "'img reader \<Rightarrow> enum_row list \<Rightarrow> sqlval \<Rightarrow> (sqlval \<times> 'img pyval) list
     \<Rightarrow> error + (sqlval \<times> 'img pyval) list" where
  "fill_enum st rows enum_type d =
     efold (\<lambda>linha d'. ebind (get_card_translation_id st (of_sql (EnumLocId linha)))
                          (\<lambda>v. Inr (dict_set d' (EnumValue linha) v)))
       (filter (\<lambda>r. sql_eq (EnumType r) enum_type) rows) d"

definition get_enums :: "'img reader \<Rightarrow> (error + bool) \<times> 'img reader" where
  "get_enums st =
     (case dict_get (connections st) ''CardDatabase'' of
        None \<Rightarrow> (Inl (KeyError ''CardDatabase''), st)
      | Some db \<Rightarrow>
          if \<not> is_database db then (Inl DatabaseError, st)
          else
          (case Enums db of
             None \<Rightarrow> (Inl (OperationalError ''no such table: Enums''), st)
           | Some rows \<Rightarrow>
               (let e1 = fold (\<lambda>t e. dict_set e t []) (group_types rows) (enums st);
                    st1 = st\<lparr>enums := e1\<rparr>
                in case emap (\<lambda>(t, d). ebind (fill_enum st1 rows t d) (\<lambda>d'. Inr (t, d'))) e1 of
                     Inl e \<Rightarrow> (Inl e, st1)
                   | Inr e2 \<Rightarrow> (Inr True, st1\<lparr>enums := e2\<rparr>))))"

text \<open>
  \<open>mtga_reader.__init__\<close>, for the first reader of the process (the class-level
  dictionaries \<open>connections\<close> and \<open>enums\<close> start empty): the reader, or the exception
  that ends the construction.
\<close>

definition initial_reader :: "string \<Rightarrow> string \<Rightarrow> 'img reader" where
  "initial_reader root lng =
     (let data_dir = os_path_join root ''MTGA_Data''
      in \<lparr>mtga_root_dir = root,
          mtga_data_dir = data_dir,
          mtga_assets_dir = os_path_join (os_path_join data_dir ''Downloads'') ''AssetBundle'',
          mtga_raw_dir = os_path_join (os_path_join data_dir ''Downloads'') ''Raw'',
          lang = lng, lang_table = None, default_lang_table = None,
          connections = [], enums = []\<rparr>)"

definition mtga_reader_init ::
  "'img file_entry list \<Rightarrow> string \<Rightarrow> string \<Rightarrow> error + 'img reader" where
  "mtga_reader_init fs root lng =
     (let st1 = snd (get_databases fs (initial_reader root lng))
      in case set_language st1 lng of
           (Inl e, st2) \<Rightarrow> Inl e
         | (Inr t, st2) \<Rightarrow>
             (case get_enums st2 of
                (Inl e, st3) \<Rightarrow> Inl e
              | (Inr b, st3) \<Rightarrow> Inr st3))"

section \<open>Art extractor\<close>

text \<open>\<open>str(card_id)\<close> for the identifier handed to the extractor.\<close>

fun str_sql :: "sqlval \<Rightarrow> string" where
  "str_sql SNull = ''None''"
| "str_sql (SInt i) = str_int i"
| "str_sql (SText s) = s"

text \<open>The body of the inner loop of \<open>find_card_art_file\<close> for one entry of the
  container.\<close>

definition label_asset :: "sqlval \<Rightarrow> string \<times> 'img asset \<Rightarrow> 'img pydict \<Rightarrow> 'img pydict" where
  "label_asset card_id po ret =
     (case po of
        (path, obj) \<Rightarrow>
          if asset_type obj = ''Texture2D'' \<or> asset_type obj = ''Sprite''
          then (let img = PImage (asset_image obj);
                    ret1 = (if contains ''Util'' path then dict_set ret ''util'' img else ret)
                in if contains (str_sql card_id @ ''_AIF.'') path
                   then dict_set ret1 ''image'' img
                   else dict_set ret1 (last (split (hd (split path ''.'')) ''_'')) img)
          else ret)"

text \<open>The pattern handed to \<open>glob.glob\<close>: the assets directory, the identifier padded
  to six digits and \<open>*.mtga\<close>, put together by the f-string.\<close>

definition art_pattern :: "'img reader \<Rightarrow> sqlval \<Rightarrow> string" where
  "art_pattern st card_id = mtga_assets_dir st @ zfill (str_sql card_id) 6 @ ''*.mtga''"

definition find_card_art_file ::
  "'img file_entry list \<Rightarrow> 'img reader \<Rightarrow> sqlval \<Rightarrow> 'img pydict" where
  "find_card_art_file fs st card_id =
     fold (\<lambda>f ret. fold (label_asset card_id) (container f) ret)
       (glob_glob fs (art_pattern st card_id))
       [(''image'', PNone), (''util'', PNone)]"

definition get_card_art_by_id ::
  "'img file_entry list \<Rightarrow> 'img reader \<Rightarrow> sqlval \<Rightarrow> 'img pydict" where
  "get_card_art_by_id fs st card_id = find_card_art_file fs st card_id"

section \<open>Card resolver\<close>

text \<open>A column of a row by name, and the row as the Python dictionary the cursor
  returns.\<close>

definition col :: "row \<Rightarrow> string \<Rightarrow> sqlval" where
  "col r name = (case dict_get r name of None \<Rightarrow> SNull | Some v \<Rightarrow> v)"

definition row_dict :: "row \<Rightarrow> 'img pydict" where
  "row_dict r = map (\<lambda>(k, v). (k, of_sql v)) r"

text \<open>The loop body and the \<open>try\<close> block of \<open>get_card_abilities\<close>;
  \<open>linha['TextId']\<close> raises KeyError when the row has no such column.\<close>

definition ability_row :: "'img reader \<Rightarrow> row \<Rightarrow> error + 'img pyval" where
  "ability_row st linha =
     (case dict_get linha ''TextId'' of
        None \<Rightarrow> Inl (KeyError ''TextId'')
      | Some v \<Rightarrow>
          ebind (get_card_translation_id st (of_sql v))
            (\<lambda>t. Inr (PDict (dict_set (row_dict linha) ''TextId'' t))))"

definition abilities_try :: "'img reader \<Rightarrow> 'img pyval \<Rightarrow> error + 'img pyval" where
  "abilities_try st ability_id =
     (case dict_get (connections st) ''CardDatabase'' of
        None \<Rightarrow> Inl (KeyError ''CardDatabase'')
      | Some db \<Rightarrow>
          if \<not> is_database db then Inl DatabaseError
          else
          (case Abilities db of
             None \<Rightarrow> Inl (OperationalError ''no such table: Abilities'')
           | Some rows \<Rightarrow>
               ebind (to_sql ability_id)
                 (\<lambda>aid. ebind (emap (ability_row st)
                                  (filter (\<lambda>r. sql_eq (col r ''Id'') aid) rows))
                    (\<lambda>ret. Inr (case ret of [] \<Rightarrow> PNone | x # xs \<Rightarrow> x)))))"

definition get_card_abilities :: "'img reader \<Rightarrow> 'img pyval \<Rightarrow> error + 'img pyval" where
  "get_card_abilities st ability_id =
     (case abilities_try st ability_id of
        Inl e \<Rightarrow> Inr ability_id
      | Inr v \<Rightarrow> Inr v)"

text \<open>The body of the loop over \<open>linha.items()\<close> in \<open>get_card_by_id\<close>.\<close>

definition card_field ::
  "'img file_entry list \<Rightarrow> 'img reader \<Rightarrow> bool \<Rightarrow> string \<times> sqlval \<Rightarrow> 'img pydict
     \<Rightarrow> error + 'img pydict" where
  "card_field fs st get_art kv tmp =
     (case kv of
        (key, val) \<Rightarrow>
          if contains ''TextId'' key \<or> contains ''TitleId'' key
          then (if val = SNull then Inr (dict_set tmp (lower (replace key ''Id'' [])) PNone)
                else ebind (get_card_translation_id st (of_sql val))
                       (\<lambda>v. Inr (dict_set tmp (lower (replace key ''Id'' [])) v)))
          else if contains ''AbilityIds'' key
          then (if val = SNull then Inr (dict_set tmp (lower (replace key ''Id'' [])) PNone)
                else ebind (get_card_abilities st (of_sql val))
                       (\<lambda>v. Inr (dict_set tmp (lower (replace key ''Id'' [])) v)))
          else if contains ''ArtId'' key
          then Inr (dict_set tmp ''art''
                      (if val = SNull \<or> \<not> get_art then of_sql val
                       else PDict (get_card_art_by_id fs st val)))
          else Inr (dict_set tmp key (of_sql val)))"

text \<open>\<open>SELECT * FROM Cards WHERE GrpId = ? LIMIT 1\<close> and the loop over its rows.\<close>

definition get_card_by_id ::
  "'img file_entry list \<Rightarrow> 'img reader \<Rightarrow> 'img pyval \<Rightarrow> bool \<Rightarrow> error + 'img pyval" where
  "get_card_by_id fs st card_id get_art =
     (case dict_get (connections st) ''CardDatabase'' of
        None \<Rightarrow> Inl (KeyError ''CardDatabase'')
      | Some db \<Rightarrow>
          if \<not> is_database db then Inl DatabaseError
          else
          (case Cards db of
             None \<Rightarrow> Inl (OperationalError ''no such table: Cards'')
           | Some rows \<Rightarrow>
               ebind (to_sql card_id)
                 (\<lambda>cid. ebind (emap (\<lambda>linha. efold (card_field fs st get_art) linha [])
                                  (take 1 (filter (\<lambda>r. sql_eq (col r ''GrpId'') cid) rows)))
                    (\<lambda>ret. Inr (case ret of [] \<Rightarrow> PNone | tmp # xs \<Rightarrow> PDict tmp)))))"

text \<open>
  The query of \<open>get_card_by_name\<close>: \<open>Loc like ?\<close> (an integer text is compared as its
  decimal writing, NULL never matches), \<open>TitleId IN (...)\<close>, and \<open>LIMIT ?\<close>, where a
  negative bound means no bound. The name of the active table is pasted into the
  subquery; a limit that is bound must fit 64 bits.
\<close>

fun sql_like :: "string \<Rightarrow> sqlval \<Rightarrow> bool" where
  "sql_like pattern SNull = False"
| "sql_like pattern (SInt i) = like_match pattern (str_int i)"
| "sql_like pattern (SText s) = like_match pattern s"

definition sql_in :: "sqlval \<Rightarrow> sqlval list \<Rightarrow> bool" where
  "sql_in x xs = list_ex (\<lambda>y. sql_eq x y) xs"

definition sql_limit :: "int \<Rightarrow> 'a list \<Rightarrow> 'a list" where
  "sql_limit n xs = (if n < 0 then xs else take (nat n) xs)"

definition select_by_name :: "row list \<Rightarrow> loc_row list \<Rightarrow> string \<Rightarrow> int option \<Rightarrow> row list" where
  "select_by_name cards locs card_name limit =
     (let matches = filter (\<lambda>r. sql_in (col r ''TitleId'')
                                  (map LocId (filter (\<lambda>l. sql_like card_name (Loc l)) locs)))
                      cards
      in case limit of
           None \<Rightarrow> matches
         | Some n \<Rightarrow> if n \<noteq> 0 then sql_limit n matches else matches)"

definition limit_overflows :: "int option \<Rightarrow> bool" where
  "limit_overflows limit =
     (case limit of
        None \<Rightarrow> False
      | Some n \<Rightarrow> n \<noteq> 0 \<and> \<not> (- (2 ^ 63) \<le> n \<and> n < 2 ^ 63))"

definition get_card_by_name ::
  "'img file_entry list \<Rightarrow> 'img reader \<Rightarrow> string \<Rightarrow> int option \<Rightarrow> bool
     \<Rightarrow> error + 'img pyval list" where
  "get_card_by_name fs st card_name limit get_art =
     (case dict_get (connections st) ''CardDatabase'' of
        None \<Rightarrow> Inl (KeyError ''CardDatabase'')
      | Some db \<Rightarrow>
          if \<not> is_database db then Inl DatabaseError
          else if \<not> sql_word (fmt_table (lang_table st))
          then Inl (OperationalError ''syntax error'')
          else
          (case Cards db of
             None \<Rightarrow> Inl (OperationalError ''no such table: Cards'')
           | Some cards \<Rightarrow>
               (case find_table db (fmt_table (lang_table st)) of
                  None \<Rightarrow> Inl (OperationalError (''no such table: '' @ fmt_table (lang_table st)))
                | Some locs \<Rightarrow>
                    if limit_overflows limit then Inl OverflowError
                    else emap (\<lambda>linha. get_card_by_id fs st (of_sql (col linha ''GrpId'')) get_art)
                           (select_by_name cards locs card_name limit))))"

text \<open>The keys under which \<open>find_card_art_file\<close> stores one entry of a container, and
  the keys stored for all the bundles the search finds.\<close>

definition asset_labels :: "sqlval \<Rightarrow> string \<times> 'img asset \<Rightarrow> string list" where
  "asset_labels card_id po =
     (case po of
        (path, obj) \<Rightarrow>
          if asset_type obj = ''Texture2D'' \<or> asset_type obj = ''Sprite''
          then (if contains ''Util'' path then [''util''] else [])
               @ [if contains (str_sql card_id @ ''_AIF.'') path then ''image''
                  else last (split (hd (split path ''.'')) ''_'')]
          else [])"

definition found_labels :: "'img file_entry list \<Rightarrow> 'img reader \<Rightarrow> sqlval \<Rightarrow> string list" where
  "found_labels fs st card_id =
     concat (map (\<lambda>f. concat (map (asset_labels card_id) (container f)))
               (glob_glob fs (art_pattern st card_id)))"

section \<open>Discovery of database files\<close>

text \<open>
  What \<open>discover_databases\<close> asks of \<open>pathlib\<close> and the file system, for a type of
  paths with the total order that \<open>sorted\<close> uses: \<open>Path(target).expanduser()\<close>,
  \<open>is_file\<close>, \<open>is_dir\<close>, \<open>suffix\<close>, \<open>path.glob(pattern)\<close> and \<open>Path().glob(target)\<close>
  in the order they yield, and \<open>resolve\<close>. \<open>Path().glob\<close> raises on an absolute or
  empty pattern; the other operations are taken as total.
\<close>

record 'p pathlib =
  expanduser :: "string \<Rightarrow> 'p"
  is_file :: "'p \<Rightarrow> bool"
  is_dir :: "'p \<Rightarrow> bool"
  suffix_of :: "'p \<Rightarrow> string"
  glob_in :: "'p \<Rightarrow> string \<Rightarrow> 'p list"
  glob_cwd :: "string \<Rightarrow> error + 'p list"
  resolve :: "'p \<Rightarrow> 'p"

text \<open>The first loop: the paths discovered for the targets, appended to \<open>discovered\<close>.\<close>

fun discover ::
  "('p::linorder) pathlib \<Rightarrow> bool \<Rightarrow> string list \<Rightarrow> 'p list \<Rightarrow> error + 'p list" where
  "discover io recursive [] discovered = Inr discovered"
| "discover io recursive (target # targets) discovered =
     (let path = expanduser io target
      in if is_file io path \<and> lower (suffix_of io path) = ''.mtga''
         then discover io recursive targets (discovered @ [path])
         else if is_dir io path
         then discover io recursive targets
                (discovered @ sort (glob_in io path (if recursive then ''**/*.mtga'' else ''*.mtga'')))
         else (case glob_cwd io target of
                 Inl e \<Rightarrow> Inl e
               | Inr found \<Rightarrow> discover io recursive targets (discovered @ sort found)))"

text \<open>The second loop: paths with the suffix \<open>.mtga\<close>, the first for each resolved
  path.\<close>

fun unique ::
  "('p::linorder) pathlib \<Rightarrow> 'p list \<Rightarrow> 'p list \<Rightarrow> 'p set \<Rightarrow> 'p list" where
  "unique io [] unique_paths seen = unique_paths"
| "unique io (path # rest) unique_paths seen =
     (if lower (suffix_of io path) \<noteq> ''.mtga'' then unique io rest unique_paths seen
      else if resolve io path \<in> seen then unique io rest unique_paths seen
      else unique io rest (unique_paths @ [path]) (insert (resolve io path) seen))"

definition discover_databases ::
  "('p::linorder) pathlib \<Rightarrow> string list \<Rightarrow> bool \<Rightarrow> error + 'p list" where
  "discover_databases io targets recursive =
     (case discover io recursive targets [] of
        Inl e \<Rightarrow> Inl e
      | Inr discovered \<Rightarrow> Inr (sort (unique io discovered [] {})))"

section \<open>Notions used in the statements about cards\<close>

text \<open>The key under which the loop of \<open>get_card_by_id\<close> stores the column \<open>key\<close>, and
  the \<open>GrpId\<close> entry of a returned card record.\<close>

definition written_key :: "string \<Rightarrow> string" where
  "written_key key =
     (if contains ''TextId'' key \<or> contains ''TitleId'' key then lower (replace key ''Id'' [])
      else if contains ''AbilityIds'' key then lower (replace key ''Id'' [])
      else if contains ''ArtId'' key then ''art''
      else key)"

definition record_id :: "'img pyval \<Rightarrow> 'img pyval option" where
  "record_id rec = (case rec of PDict d \<Rightarrow> dict_get d ''GrpId'' | _ \<Rightarrow> None)"


text \<open>Example data: a card database with an English and a Japanese table.\<close>

definition bolt_rows :: "loc_row list" where
  "bolt_rows =
     [\<lparr>LocId = SInt 10, Loc = SText ''lightning bolt'', Formatted = SInt 0\<rparr>,
      \<lparr>LocId = SInt 10, Loc = SText ''Lightning Bolt'', Formatted = SInt 1\<rparr>,
      \<lparr>LocId = SInt 11, Loc = SText ''Shock'', Formatted = SInt 1\<rparr>]"

definition blank_rows :: "loc_row list" where
  "blank_rows =
     [\<lparr>LocId = SInt 10, Loc = SText [], Formatted = SInt 1\<rparr>,
      \<lparr>LocId = SInt 12, Loc = SText ''Inazuma'', Formatted = SInt 1\<rparr>,
      \<lparr>LocId = SInt 13, Loc = SText [], Formatted = SInt 1\<rparr>]"

definition card_row :: "int \<Rightarrow> int \<Rightarrow> sqlval \<Rightarrow> row" where
  "card_row g t a = [(''GrpId'', SInt g), (''TitleId'', SInt t), (''ArtId'', a)]"

definition ex_cards :: "row list" where
  "ex_cards = [card_row 1 10 SNull, card_row 2 11 (SInt 123), card_row 3 11 (SInt 124)]"

definition ex_db :: database where
  "ex_db =
     \<lparr>is_database = True,
      loc_tables = [(''Localizations_enUS'', bolt_rows), (''Localizations_jaJP'', blank_rows)],
      Cards = Some ex_cards, Abilities = Some [], Enums = Some []\<rparr>"

definition ex_reader :: "string \<Rightarrow> string \<Rightarrow> nat reader" where
  "ex_reader active dflt =
     \<lparr>mtga_root_dir = ''m'', mtga_data_dir = ''m/MTGA_Data'',
      mtga_assets_dir = ''m/MTGA_Data/Downloads/AssetBundle'',
      mtga_raw_dir = ''m/MTGA_Data/Downloads/Raw'',
      lang = ''x'', lang_table = Some active, default_lang_table = Some dflt,
      connections = [(''CardDatabase'', ex_db)], enums = []\<rparr>"

text \<open>A database without localization tables, and game directories holding one file for
  each logical database.\<close>

definition bare_db :: database where
  "bare_db =
     \<lparr>is_database = True, loc_tables = [], Cards = Some [], Abilities = Some [],
      Enums = Some []\<rparr>"

definition raw_file :: "string \<Rightarrow> database \<Rightarrow> nat file_entry" where
  "raw_file name db =
     \<lparr>file_name = ''m/MTGA_Data/Downloads/Raw/Raw_'' @ name @ ''_1.mtga'', file_ctime = 1,
      file_content = SqliteFile db\<rparr>"

definition ex_fs :: "database \<Rightarrow> nat file_entry list" where
  "ex_fs card_db =
     [raw_file ''ArtCropDatabase'' bare_db, raw_file ''CardDatabase'' card_db,
      raw_file ''ClientLocalization'' bare_db, raw_file ''altArtCredits'' bare_db,
      raw_file ''altFlavorTexts'' bare_db, raw_file ''credits'' bare_db]"

text \<open>A card table in which two rows carry the same \<open>GrpId\<close>, and a reader on it.\<close>

definition dup_reader :: "nat reader" where
  "dup_reader =
     (ex_reader ''Localizations_enUS'' ''Localizations_enUS'')
       \<lparr>connections :=
          [(''CardDatabase'', ex_db\<lparr>Cards := Some [card_row 1 10 SNull, card_row 1 10 SNull]\<rparr>)]\<rparr>"

text \<open>Two asset bundles for art identifier 123: one inside the assets directory, one
  beside it whose name starts with the name of the assets directory.\<close>

definition art_bundle :: "string \<Rightarrow> string \<Rightarrow> nat \<Rightarrow> nat file_entry" where
  "art_bundle name path img =
     \<lparr>file_name = name, file_ctime = 1,
      file_content = BundleFile [(path, \<lparr>asset_type = ''Texture2D'', asset_image = img\<rparr>)]\<rparr>"

definition inside_bundle :: "nat file_entry" where
  "inside_bundle =
     art_bundle ''m/MTGA_Data/Downloads/AssetBundle/000123_CardArt_ab.mtga''
       ''Assets/Core/CardArt/000000/123_AIF.tga'' 7"

definition beside_bundle :: "nat file_entry" where
  "beside_bundle =
     art_bundle ''m/MTGA_Data/Downloads/AssetBundle000123_CardArt_cd.mtga''
       ''Assets/Core/CardArt/000000/123_Util.tga'' 8"

text \<open>
  A directory \<open>data\<close> with the files \<open>b.mtga\<close>, \<open>a.mtga\<close> and \<open>notes.txt\<close>, and a
  link \<open>link.mtga\<close> to \<open>data/a.mtga\<close>; paths are lists of components. The targets
  \<open>link.mtga\<close>, \<open>data\<close> and \<open>data/*\<close> reach the file \<open>a.mtga\<close> three times.
\<close>

definition ex_io :: "string list pathlib" where
  "ex_io =
     \<lparr>expanduser = (\<lambda>t. split t ''/''),
      is_file = (\<lambda>p. p \<in> {[''link.mtga''], [''data'', ''a.mtga''], [''data'', ''b.mtga''],
                            [''data'', ''notes.txt'']}),
      is_dir = (\<lambda>p. p = [''data'']),
      suffix_of = (\<lambda>p. if p = [] then [] else
                     (case split (last p) ''.'' of
                        [] \<Rightarrow> [] | [n] \<Rightarrow> [] | n # ns \<Rightarrow> CHR ''.'' # last ns)),
      glob_in = (\<lambda>p pat. if p = [''data''] then [[''data'', ''b.mtga''], [''data'', ''a.mtga'']]
                          else []),
      glob_cwd = (\<lambda>pat. if pat = [] \<or> prefix ''/'' pat then Inl NotImplementedError
                         else if pat = ''data/*'' then
                           Inr [[''data'', ''notes.txt''], [''data'', ''a.mtga''],
                                [''data'', ''b.mtga'']]
                         else Inr []),
      resolve = (\<lambda>p. if p = [''link.mtga''] then [''/'', ''home'', ''data'', ''a.mtga'']
                       else ''/'' # ''home'' # p)\<rparr>"

text \<open>
  A catalog whose Japanese table is named with a hyphen, a reader on it, and a catalog
  with a table that the pattern \<open>Localizations_%\<close> matches although its name does not
  hold the text \<open>Localizations_\<close>.
\<close>

definition hyphen_db :: database where
  "hyphen_db =
     ex_db\<lparr>loc_tables := [(''Localizations_enUS'', bolt_rows),
                           (''Localizations_ja-JP'', blank_rows)]\<rparr>"

definition hyphen_reader :: "nat reader" where
  "hyphen_reader =
     (ex_reader ''Localizations_enUS'' ''Localizations_enUS'')
       \<lparr>connections := [(''CardDatabase'', hyphen_db)]\<rparr>"

definition lower_db :: database where
  "lower_db =
     ex_db\<lparr>loc_tables := [(''Localizations_enUS'', bolt_rows),
                           (''localizations_deDE'', blank_rows)]\<rparr>"

definition lower_reader :: "nat reader" where
  "lower_reader =
     (ex_reader ''Localizations_enUS'' ''Localizations_enUS'')
       \<lparr>connections := [(''CardDatabase'', lower_db)]\<rparr>"

section \<open>Properties of the text resolver\<close>

lemmas ex_defs =
  ex_reader_def ex_db_def bolt_rows_def blank_rows_def dict_get_def fmt_table_def
  select_loc_def sql_eq_def

lemma filter_none: "\<not> list_ex P xs \<Longrightarrow> filter P xs = []"
  by (induction xs) auto

lemma sql_less_trans: "sql_less a b \<Longrightarrow> sql_less b c \<Longrightarrow> sql_less a c"
  by (cases a; cases b; cases c) auto

lemma sql_less_irrefl: "\<not> sql_less a a"
  by (cases a) auto

lemma sql_less_total: "\<not> sql_less a b \<Longrightarrow> \<not> sql_less b a \<Longrightarrow> a = b"
  by (cases a; cases b) auto

lemma sql_less_asym: "sql_less a b \<Longrightarrow> \<not> sql_less b a"
  by (cases a; cases b) auto

lemma top_formatted_mem: "top_formatted rs = Some r \<Longrightarrow> r \<in> set rs"
  by (induction rs arbitrary: r) (auto split: option.splits if_splits)

lemma top_formatted_some: "rs \<noteq> [] \<Longrightarrow> \<exists>r. top_formatted rs = Some r"
  by (induction rs) (auto split: option.splits)

lemma top_formatted_max:
  "top_formatted rs = Some r \<Longrightarrow> r' \<in> set rs \<Longrightarrow> \<not> sql_less (Formatted r) (Formatted r')"
proof (induction rs arbitrary: r)
  case Nil
  then show ?case by simp
next
  case (Cons a rs)
  show ?case
  proof (cases "top_formatted rs")
    case None
    then have "rs = []" using top_formatted_some by fastforce
    with Cons.prems None show ?thesis by (auto simp: sql_less_irrefl)
  next
    case (Some b)
    note IH = Cons.IH[OF Some]
    show ?thesis
    proof (cases "sql_less (Formatted a) (Formatted b)")
      case True
      with Some Cons.prems have rb: "r = b" by simp
      show ?thesis
      proof (cases "r' = a")
        case True
        with rb \<open>sql_less (Formatted a) (Formatted b)\<close> show ?thesis
          using sql_less_asym by blast
      next
        case False
        with Cons.prems have "r' \<in> set rs" by simp
        with IH rb show ?thesis by simp
      qed
    next
      case False
      with Some Cons.prems have ra: "r = a" by simp
      show ?thesis
      proof (cases "r' = a")
        case True
        with ra show ?thesis by (simp add: sql_less_irrefl)
      next
        case False
        with Cons.prems have "r' \<in> set rs" by simp
        then have nb: "\<not> sql_less (Formatted b) (Formatted r')" by (rule IH)
        show ?thesis
        proof
          assume "sql_less (Formatted r) (Formatted r')"
          with ra have ar: "sql_less (Formatted a) (Formatted r')" by simp
          have "sql_less (Formatted a) (Formatted b)"
          proof (cases "sql_less (Formatted r') (Formatted b)")
            case True
            with ar show ?thesis using sql_less_trans by blast
          next
            case False
            with nb have "Formatted b = Formatted r'" using sql_less_total by blast
            with ar show ?thesis by simp
          qed
          with \<open>\<not> sql_less (Formatted a) (Formatted b)\<close> show False by simp
        qed
      qed
    qed
  qed
qed

lemma select_loc_props:
  assumes "select_loc rows tid = Some r"
  shows "r \<in> set rows" "sql_eq (LocId r) tid"
    "\<forall>r' \<in> set rows. sql_eq (LocId r') tid \<longrightarrow> \<not> sql_less (Formatted r) (Formatted r')"
proof -
  from assms have m: "r \<in> set (filter (\<lambda>r. sql_eq (LocId r) tid) rows)"
    unfolding select_loc_def by (rule top_formatted_mem)
  then show "r \<in> set rows" "sql_eq (LocId r) tid" by auto
  show "\<forall>r' \<in> set rows. sql_eq (LocId r') tid \<longrightarrow> \<not> sql_less (Formatted r) (Formatted r')"
    using top_formatted_max[OF assms[unfolded select_loc_def]] by auto
qed

lemma select_loc_some:
  "list_ex (\<lambda>r. sql_eq (LocId r) tid) rows \<Longrightarrow> \<exists>r. select_loc rows tid = Some r"
  unfolding select_loc_def
  by (rule top_formatted_some) (auto simp: filter_empty_conv list_ex_iff)

lemma select_loc_null: "select_loc rows SNull = None"
  by (simp add: select_loc_def sql_eq_def)

lemma select_loc_absent:
  "\<not> list_ex (\<lambda>r. sql_eq (LocId r) tid) rows \<Longrightarrow> select_loc rows tid = None"
  by (simp add: select_loc_def filter_none)

lemma lookup_none: "lookup_localization st PNone t = Inr v \<Longrightarrow> v = PNone"
  by (auto simp: lookup_localization_def select_loc_null split: option.splits sum.splits)

lemma lookup_absent:
  "\<not> has_row st text_id t \<Longrightarrow> lookup_localization st text_id t = Inr v \<Longrightarrow> v = PNone"
  by (auto simp: has_row_def lookup_localization_def select_loc_def filter_none
      split: option.splits sum.splits)

lemma translation_always_returns: "\<exists>v. get_card_translation_id st text_id = Inr v"
  by (auto simp: get_card_translation_id_def split: sum.splits option.splits)

lemma try_absent:
  assumes "\<not> has_row st text_id (lang_table st)"
    and "\<not> has_row st text_id (default_lang_table st)"
  shows "translation_try st text_id \<noteq> Inr (Some v)"
  using lookup_absent[OF assms(1)] lookup_absent[OF assms(2)]
  by (auto simp: translation_try_def split: sum.splits option.splits if_splits)

lemma translation_of_truthy:
  assumes "lookup_localization st text_id (lang_table st) = Inr v" "truthy v"
  shows "get_card_translation_id st text_id = Inr v"
  using assms lookup_none[of st "lang_table st" v]
  by (auto simp: get_card_translation_id_def translation_try_def)

lemma lookup_read:
  assumes "dict_get (connections st) ''CardDatabase'' = Some db"
    and "read_table db (fmt_table t) = Inr rows"
    and "to_sql text_id = Inr tid"
  shows "lookup_localization st text_id t
           = Inr (case select_loc rows tid of None \<Rightarrow> PNone | Some r \<Rightarrow> of_sql (Loc r))"
  using assms by (simp add: lookup_localization_def)

lemma lookup_read_error:
  assumes "dict_get (connections st) ''CardDatabase'' = Some db"
    and "read_table db (fmt_table t) = Inl e"
  shows "lookup_localization st text_id t = Inl e"
  using assms by (simp add: lookup_localization_def)

lemma localization_name_set:
  "localization_name (fmt_table t) \<Longrightarrow> \<exists>n. t = Some n \<and> n \<noteq> []"
proof (cases t)
  case None
  assume "localization_name (fmt_table t)"
  with None have "like_match ''Localizations_%'' ''None''"
    by (simp add: localization_name_def fmt_table_def)
  moreover have "\<not> like_match ''Localizations_%'' ''None''" by code_simp
  ultimately show ?thesis by blast
next
  case (Some n)
  assume "localization_name (fmt_table t)"
  with Some have "like_match ''Localizations_%'' n"
    by (simp add: localization_name_def fmt_table_def)
  then have "n \<noteq> []" by auto
  with Some show ?thesis by blast
qed

text \<open>
  C3, as the code has it. \<open>get_card_translation_id\<close> returns a null identifier
  unchanged and always returns a value, never an error. An identifier with no row in
  the active table and none in the default table is returned unchanged. An error
  raised by the lookup in the active table ends the resolution: the identifier is
  returned unchanged, whatever the default table holds; so does an error raised by the
  lookup in the default table.
\<close>

theorem get_card_translation_id_soft_fail:
  "get_card_translation_id st PNone = Inr PNone
   \<and> (\<exists>v. get_card_translation_id st text_id = Inr v)
   \<and> (localization_name (fmt_table (lang_table st))
        \<and> localization_name (fmt_table (default_lang_table st))
        \<and> plain_id text_id
        \<and> \<not> has_row st text_id (lang_table st) \<and> \<not> has_row st text_id (default_lang_table st)
      \<longrightarrow> get_card_translation_id st text_id = Inr text_id)
   \<and> (localization_name (fmt_table (lang_table st))
        \<and> lookup_localization st text_id (lang_table st) = Inl e
      \<longrightarrow> get_card_translation_id st text_id = Inr text_id)
   \<and> (localization_name (fmt_table (lang_table st))
        \<and> localization_name (fmt_table (default_lang_table st))
        \<and> plain_id text_id
        \<and> lookup_localization st text_id (lang_table st) = Inr v \<and> \<not> truthy v
        \<and> lookup_localization st text_id (default_lang_table st) = Inl e'
      \<longrightarrow> get_card_translation_id st text_id = Inr text_id)"
proof (intro conjI)
  show "get_card_translation_id st PNone = Inr PNone"
    by (simp add: get_card_translation_id_def)
  show "\<exists>v. get_card_translation_id st text_id = Inr v"
    by (rule translation_always_returns)
  show "localization_name (fmt_table (lang_table st))
        \<and> localization_name (fmt_table (default_lang_table st))
        \<and> plain_id text_id
        \<and> \<not> has_row st text_id (lang_table st) \<and> \<not> has_row st text_id (default_lang_table st)
      \<longrightarrow> get_card_translation_id st text_id = Inr text_id"
    using try_absent[of st text_id]
    by (auto simp: get_card_translation_id_def split: sum.splits option.splits)
  show "localization_name (fmt_table (lang_table st))
        \<and> lookup_localization st text_id (lang_table st) = Inl e
      \<longrightarrow> get_card_translation_id st text_id = Inr text_id"
    by (auto simp: get_card_translation_id_def translation_try_def)
  show "localization_name (fmt_table (lang_table st))
        \<and> localization_name (fmt_table (default_lang_table st))
        \<and> plain_id text_id
        \<and> lookup_localization st text_id (lang_table st) = Inr v \<and> \<not> truthy v
        \<and> lookup_localization st text_id (default_lang_table st) = Inl e'
      \<longrightarrow> get_card_translation_id st text_id = Inr text_id"
    by (auto simp: get_card_translation_id_def translation_try_def)
qed

text \<open>
  At identifier 99, which neither example table holds; at identifier 10 on the catalog
  with the hyphenated Japanese table, where the lookup in the active table raises; and
  at identifier 10 with the Japanese table active and a default table that is missing.
\<close>

theorem get_card_translation_id_soft_fail_witness:
  "localization_name ''Localizations_jaJP'' \<and> localization_name ''Localizations_enUS''
   \<and> localization_name ''Localizations_ja-JP'' \<and> localization_name ''Localizations_zz''
   \<and> plain_id (PInt 99 :: nat pyval)
   \<and> \<not> has_row (ex_reader ''Localizations_jaJP'' ''Localizations_enUS'') (PInt 99)
         (Some ''Localizations_jaJP'')
   \<and> \<not> has_row (ex_reader ''Localizations_jaJP'' ''Localizations_enUS'') (PInt 99)
         (Some ''Localizations_enUS'')
   \<and> get_card_translation_id (ex_reader ''Localizations_jaJP'' ''Localizations_enUS'') (PInt 99)
       = Inr (PInt 99)
   \<and> lookup_localization
         (hyphen_reader\<lparr>lang_table := Some ''Localizations_ja-JP''\<rparr>) (PInt 10)
         (Some ''Localizations_ja-JP'') = Inl (OperationalError ''syntax error'')
   \<and> get_card_translation_id
         (hyphen_reader\<lparr>lang_table := Some ''Localizations_ja-JP''\<rparr>) (PInt 10) = Inr (PInt 10)
   \<and> lookup_localization (ex_reader ''Localizations_jaJP'' ''Localizations_zz'') (PInt 10)
         (Some ''Localizations_jaJP'') = Inr (PStr [])
   \<and> lookup_localization (ex_reader ''Localizations_jaJP'' ''Localizations_zz'') (PInt 10)
         (Some ''Localizations_zz'') = Inl (OperationalError ''no such table: Localizations_zz'')
   \<and> get_card_translation_id (ex_reader ''Localizations_jaJP'' ''Localizations_zz'') (PInt 10)
       = Inr (PInt 10)"
proof -
  let ?st = "ex_reader ''Localizations_jaJP'' ''Localizations_enUS''"
  let ?sh = "hyphen_reader\<lparr>lang_table := Some ''Localizations_ja-JP''\<rparr>"
  let ?sz = "ex_reader ''Localizations_jaJP'' ''Localizations_zz''"
  have n: "localization_name ''Localizations_jaJP''" "localization_name ''Localizations_enUS''"
    "localization_name ''Localizations_ja-JP''" "localization_name ''Localizations_zz''"
    by code_simp+
  have p: "plain_id (PInt 99 :: nat pyval)" by (simp add: plain_id_def)
  have a: "\<not> has_row ?st (PInt 99) (Some ''Localizations_jaJP'')" by code_simp
  have b: "\<not> has_row ?st (PInt 99) (Some ''Localizations_enUS'')" by code_simp
  have t: "lang_table ?st = Some ''Localizations_jaJP''"
    "default_lang_table ?st = Some ''Localizations_enUS''"
    "lang_table ?sh = Some ''Localizations_ja-JP''"
    "lang_table ?sz = Some ''Localizations_jaJP''"
    "default_lang_table ?sz = Some ''Localizations_zz''"
    by (simp_all add: ex_reader_def hyphen_reader_def)
  have f: "fmt_table (Some ''Localizations_jaJP'') = ''Localizations_jaJP''"
    "fmt_table (Some ''Localizations_enUS'') = ''Localizations_enUS''"
    "fmt_table (Some ''Localizations_ja-JP'') = ''Localizations_ja-JP''"
    "fmt_table (Some ''Localizations_zz'') = ''Localizations_zz''"
    by (simp_all add: fmt_table_def)
  have c: "lookup_localization ?sh (PInt 10) (Some ''Localizations_ja-JP'')
      = Inl (OperationalError ''syntax error'')" by code_simp
  have d: "lookup_localization ?sz (PInt 10) (Some ''Localizations_jaJP'') = Inr (PStr [])"
    by code_simp
  have e: "lookup_localization ?sz (PInt 10) (Some ''Localizations_zz'')
      = Inl (OperationalError ''no such table: Localizations_zz'')" by code_simp
  from get_card_translation_id_soft_fail[of ?st "PInt 99"] n p a b t f
  have 1: "get_card_translation_id ?st (PInt 99) = Inr (PInt 99)" by simp
  from get_card_translation_id_soft_fail[of ?sh "PInt 10" "OperationalError ''syntax error''"]
    n c t f
  have 2: "get_card_translation_id ?sh (PInt 10) = Inr (PInt 10)" by simp
  have p10: "plain_id (PInt 10 :: nat pyval)" by (simp add: plain_id_def)
  from get_card_translation_id_soft_fail[of ?sz "PInt 10" _ "PStr []"
      "OperationalError ''no such table: Localizations_zz''"] n d e t f p10
  have 3: "get_card_translation_id ?sz (PInt 10) = Inr (PInt 10)" by simp
  from n p a b c d e 1 2 3 show ?thesis by blast
qed

text \<open>
  The claim as written fails. On the catalog with the tables \<open>Localizations_enUS\<close> and
  \<open>Localizations_ja-JP\<close>, \<open>set_language\<close> selects the hyphenated table for \<open>ja-jp\<close>
  and keeps the English one as default. The lookup of identifier 10 in the active table
  then raises, the default table, which holds the text "Lightning Bolt" for it, is not
  consulted, and the identifier is returned; whereas identifier 11, which is simply not
  found in the active table of the example catalog, resolves through the default
  table.
\<close>

theorem get_card_translation_id_soft_fail_counterexample:
  "fst (set_language hyphen_reader ''ja-jp'') = Inr ''Localizations_ja-JP''
   \<and> lang_table (snd (set_language hyphen_reader ''ja-jp'')) = Some ''Localizations_ja-JP''
   \<and> default_lang_table (snd (set_language hyphen_reader ''ja-jp'')) = Some ''Localizations_enUS''
   \<and> lookup_localization (snd (set_language hyphen_reader ''ja-jp'')) (PInt 10)
        (Some ''Localizations_ja-JP'') = Inl (OperationalError ''syntax error'')
   \<and> lookup_localization (snd (set_language hyphen_reader ''ja-jp'')) (PInt 10)
        (Some ''Localizations_enUS'') = Inr (PStr ''Lightning Bolt'')
   \<and> get_card_translation_id (snd (set_language hyphen_reader ''ja-jp'')) (PInt 10)
        = Inr (PInt 10)
   \<and> lookup_localization (ex_reader ''Localizations_jaJP'' ''Localizations_enUS'') (PInt 11)
        (Some ''Localizations_jaJP'') = Inr PNone
   \<and> get_card_translation_id (ex_reader ''Localizations_jaJP'' ''Localizations_enUS'') (PInt 11)
        = Inr (PStr ''Shock'')"
  by code_simp

text \<open>
  C2, as the code has it. When the statement on the active table can be executed and
  the identifier has at least one row in that table, the query selects one of those
  rows, and no row of the identifier has a greater \<open>Formatted\<close>; when the text of the
  selected row is truthy (not NULL, not empty, not 0), \<open>get_card_translation_id\<close>
  returns it, whatever the default table holds.
\<close>

theorem active_translation_preferred:
  fixes st :: "'a reader"
  assumes "dict_get (connections st) ''CardDatabase'' = Some db"
    and "localization_name (fmt_table (lang_table st))"
    and "read_table db (fmt_table (lang_table st)) = Inr rows"
    and "to_sql text_id = Inr tid"
    and "plain_param tid"
    and "list_ex (\<lambda>r. sql_eq (LocId r) tid) rows"
  shows "\<exists>r. select_loc rows tid = Some r \<and> r \<in> set rows \<and> sql_eq (LocId r) tid
           \<and> (\<forall>r' \<in> set rows. sql_eq (LocId r') tid
                 \<longrightarrow> \<not> sql_less (Formatted r) (Formatted r'))
           \<and> (truthy (of_sql (Loc r) :: 'a pyval) \<longrightarrow>
                get_card_translation_id st text_id = Inr (of_sql (Loc r)))"
proof -
  from select_loc_some[OF assms(6)] obtain r where r: "select_loc rows tid = Some r" by blast
  have l: "lookup_localization st text_id (lang_table st) = Inr (of_sql (Loc r))"
    using lookup_read[OF assms(1) assms(3) assms(4)] r by simp
  show ?thesis
    using r select_loc_props[OF r] translation_of_truthy[OF l] by blast
qed

text \<open>
  The scenario of the specification: with the rows (10, "Lightning Bolt", 1) and
  (10, "lightning bolt", 0) in the active table, identifier 10 resolves to
  "Lightning Bolt".
\<close>

theorem active_translation_preferred_witness:
  "dict_get (connections (ex_reader ''Localizations_enUS'' ''Localizations_jaJP''))
      ''CardDatabase'' = Some ex_db
   \<and> localization_name
        (fmt_table (lang_table (ex_reader ''Localizations_enUS'' ''Localizations_jaJP'')))
   \<and> read_table ex_db
        (fmt_table (lang_table (ex_reader ''Localizations_enUS'' ''Localizations_jaJP'')))
      = Inr bolt_rows
   \<and> to_sql (PInt 10 :: nat pyval) = Inr (SInt 10)
   \<and> plain_param (SInt 10)
   \<and> list_ex (\<lambda>r. sql_eq (LocId r) (SInt 10)) bolt_rows
   \<and> get_card_translation_id (ex_reader ''Localizations_enUS'' ''Localizations_jaJP'') (PInt 10)
      = Inr (PStr ''Lightning Bolt'')"
proof -
  let ?st = "ex_reader ''Localizations_enUS'' ''Localizations_jaJP''"
  have a: "dict_get (connections ?st) ''CardDatabase'' = Some ex_db"
    by (simp add: ex_defs)
  have n: "localization_name (fmt_table (lang_table ?st))" by code_simp
  have b: "read_table ex_db (fmt_table (lang_table ?st)) = Inr bolt_rows" by code_simp
  have c: "to_sql (PInt 10 :: nat pyval) = Inr (SInt 10)" by simp
  have p: "plain_param (SInt 10)" by (simp add: plain_param_def)
  have d: "list_ex (\<lambda>r. sql_eq (LocId r) (SInt 10)) bolt_rows"
    by (simp add: ex_defs)
  have s: "select_loc bolt_rows (SInt 10)
      = Some \<lparr>LocId = SInt 10, Loc = SText ''Lightning Bolt'', Formatted = SInt 1\<rparr>"
    by (simp add: ex_defs)
  from active_translation_preferred[OF a n b c p d] s
  have "get_card_translation_id ?st (PInt 10) = Inr (PStr ''Lightning Bolt'')" by auto
  with a n b c p d show ?thesis by blast
qed

text \<open>
  The claim as written fails: identifier 10 has a row in the active (Japanese) table, its
  text there is empty, and the text of the default (English) table is returned.
\<close>

theorem active_translation_preferred_counterexample:
  "has_row (ex_reader ''Localizations_jaJP'' ''Localizations_enUS'') (PInt 10)
      (lang_table (ex_reader ''Localizations_jaJP'' ''Localizations_enUS''))
   \<and> lookup_localization (ex_reader ''Localizations_jaJP'' ''Localizations_enUS'') (PInt 10)
        (lang_table (ex_reader ''Localizations_jaJP'' ''Localizations_enUS'')) = Inr (PStr [])
   \<and> lookup_localization (ex_reader ''Localizations_jaJP'' ''Localizations_enUS'') (PInt 10)
        (default_lang_table (ex_reader ''Localizations_jaJP'' ''Localizations_enUS''))
        = Inr (PStr ''Lightning Bolt'')
   \<and> get_card_translation_id (ex_reader ''Localizations_jaJP'' ''Localizations_enUS'') (PInt 10)
        = Inr (PStr ''Lightning Bolt'')"
  by code_simp

text \<open>
  C10. When the row selected in the active table has the empty string as its text, the
  lookup counts as unresolved. With a default table other than the active one, the row
  of the identifier with the greatest \<open>Formatted\<close> in the default table decides: its
  text is returned when truthy, and the identifier is returned when there is no such
  row, when its text is not truthy, or when the default table cannot be read. With the
  default table equal to the active one the identifier is returned. The empty stored
  text is never the result.
\<close>

theorem empty_translation_falls_through:
  fixes st :: "'a reader"
  assumes "dict_get (connections st) ''CardDatabase'' = Some db"
    and "localization_name (fmt_table (lang_table st))"
    and "localization_name (fmt_table (default_lang_table st))"
    and "read_table db (fmt_table (lang_table st)) = Inr rows"
    and "to_sql text_id = Inr tid"
    and "plain_param tid"
    and "select_loc rows tid = Some r"
    and "Loc r = SText []"
  shows "get_card_translation_id st text_id =
           Inr (if default_lang_table st = lang_table st then text_id
                else (case read_table db (fmt_table (default_lang_table st)) of
                        Inl e \<Rightarrow> text_id
                      | Inr rows' \<Rightarrow>
                          (case select_loc rows' tid of
                             None \<Rightarrow> text_id
                           | Some r' \<Rightarrow>
                               if truthy (of_sql (Loc r') :: 'a pyval) then of_sql (Loc r')
                               else text_id)))
         \<and> (get_card_translation_id st text_id = Inr (PStr []) \<longrightarrow> text_id = PStr [])"
proof -
  have l: "lookup_localization st text_id (lang_table st) = Inr (PStr [])"
    using lookup_read[OF assms(1) assms(4) assms(5)] assms(7,8) by simp
  have n: "text_id \<noteq> PNone"
    using assms(5,7) by (auto simp: select_loc_null)
  from localization_name_set[OF assms(3)] obtain d where
    d: "default_lang_table st = Some d" "d \<noteq> []" by blast
  have eq: "get_card_translation_id st text_id =
           Inr (if default_lang_table st = lang_table st then text_id
                else (case read_table db (fmt_table (default_lang_table st)) of
                        Inl e \<Rightarrow> text_id
                      | Inr rows' \<Rightarrow>
                          (case select_loc rows' tid of
                             None \<Rightarrow> text_id
                           | Some r' \<Rightarrow>
                               if truthy (of_sql (Loc r') :: 'a pyval) then of_sql (Loc r')
                               else text_id)))"
  proof (cases "default_lang_table st = lang_table st")
    case True
    with l n show ?thesis
      by (simp add: get_card_translation_id_def translation_try_def)
  next
    case False
    show ?thesis
    proof (cases "read_table db (fmt_table (default_lang_table st))")
      case (Inl e)
      from lookup_read_error[OF assms(1) Inl]
      have "lookup_localization st text_id (default_lang_table st) = Inl e" .
      with l n d False Inl show ?thesis
        by (simp add: get_card_translation_id_def translation_try_def)
    next
      case (Inr rows')
      from lookup_read[OF assms(1) Inr assms(5)]
      have f: "lookup_localization st text_id (default_lang_table st)
          = Inr (case select_loc rows' tid of None \<Rightarrow> PNone | Some r \<Rightarrow> of_sql (Loc r))" .
      with l n d False Inr show ?thesis
        by (auto simp: get_card_translation_id_def translation_try_def split: option.splits)
    qed
  qed
  have "get_card_translation_id st text_id = Inr (PStr []) \<longrightarrow> text_id = PStr []"
    unfolding eq by (auto split: sum.splits option.splits if_splits)
  with eq show ?thesis by blast
qed

text \<open>
  The reader that \<open>set_language\<close> leaves for \<open>ja_JP\<close> on the example catalog has the
  Japanese table active and the English one as default. Identifier 10, empty in
  Japanese, resolves to the English text; identifier 13, empty in Japanese and without
  a row in English, is returned unchanged.
\<close>

theorem empty_translation_falls_through_witness:
  "lang_table (snd (set_language (ex_reader ''Localizations_enUS'' ''Localizations_enUS'') ''ja_JP''))
     = Some ''Localizations_jaJP''
   \<and> default_lang_table
        (snd (set_language (ex_reader ''Localizations_enUS'' ''Localizations_enUS'') ''ja_JP''))
     = Some ''Localizations_enUS''
   \<and> dict_get (connections
        (snd (set_language (ex_reader ''Localizations_enUS'' ''Localizations_enUS'') ''ja_JP'')))
        ''CardDatabase'' = Some ex_db
   \<and> localization_name ''Localizations_jaJP'' \<and> localization_name ''Localizations_enUS''
   \<and> read_table ex_db ''Localizations_jaJP'' = Inr blank_rows
   \<and> read_table ex_db ''Localizations_enUS'' = Inr bolt_rows
   \<and> to_sql (PInt 10 :: nat pyval) = Inr (SInt 10) \<and> plain_param (SInt 10)
   \<and> select_loc blank_rows (SInt 10) = Some \<lparr>LocId = SInt 10, Loc = SText [], Formatted = SInt 1\<rparr>
   \<and> get_card_translation_id
        (snd (set_language (ex_reader ''Localizations_enUS'' ''Localizations_enUS'') ''ja_JP''))
        (PInt 10) = Inr (PStr ''Lightning Bolt'')
   \<and> to_sql (PInt 13 :: nat pyval) = Inr (SInt 13) \<and> plain_param (SInt 13)
   \<and> select_loc blank_rows (SInt 13) = Some \<lparr>LocId = SInt 13, Loc = SText [], Formatted = SInt 1\<rparr>
   \<and> select_loc bolt_rows (SInt 13) = None
   \<and> get_card_translation_id
        (snd (set_language (ex_reader ''Localizations_enUS'' ''Localizations_enUS'') ''ja_JP''))
        (PInt 13) = Inr (PInt 13)"
proof -
  let ?st = "snd (set_language (ex_reader ''Localizations_enUS'' ''Localizations_enUS'') ''ja_JP'')"
  let ?r10 = "\<lparr>LocId = SInt 10, Loc = SText [], Formatted = SInt 1\<rparr>"
  let ?r13 = "\<lparr>LocId = SInt 13, Loc = SText [], Formatted = SInt 1\<rparr>"
  have la: "lang_table ?st = Some ''Localizations_jaJP''" by code_simp
  have ld: "default_lang_table ?st = Some ''Localizations_enUS''" by code_simp
  have a: "dict_get (connections ?st) ''CardDatabase'' = Some ex_db" by code_simp
  have n1: "localization_name ''Localizations_jaJP''" by code_simp
  have n2: "localization_name ''Localizations_enUS''" by code_simp
  have b1: "read_table ex_db ''Localizations_jaJP'' = Inr blank_rows" by code_simp
  have b2: "read_table ex_db ''Localizations_enUS'' = Inr bolt_rows" by code_simp
  have c10: "to_sql (PInt 10 :: nat pyval) = Inr (SInt 10)" by simp
  have c13: "to_sql (PInt 13 :: nat pyval) = Inr (SInt 13)" by simp
  have p10: "plain_param (SInt 10)" by (simp add: plain_param_def)
  have p13: "plain_param (SInt 13)" by (simp add: plain_param_def)
  have s10: "select_loc blank_rows (SInt 10) = Some ?r10" by (simp add: ex_defs)
  have s13: "select_loc blank_rows (SInt 13) = Some ?r13" by (simp add: ex_defs)
  have d10: "select_loc bolt_rows (SInt 10)
      = Some \<lparr>LocId = SInt 10, Loc = SText ''Lightning Bolt'', Formatted = SInt 1\<rparr>"
    by (simp add: ex_defs)
  have d13: "select_loc bolt_rows (SInt 13) = None" by (simp add: ex_defs)
  have f: "fmt_table (lang_table ?st) = ''Localizations_jaJP''"
    "fmt_table (default_lang_table ?st) = ''Localizations_enUS''"
    unfolding la ld by (simp_all add: fmt_table_def)
  have ne: "default_lang_table ?st \<noteq> lang_table ?st" unfolding la ld by simp
  have 1: "get_card_translation_id ?st (PInt 10) = Inr (PStr ''Lightning Bolt'')"
    using empty_translation_falls_through[of ?st ex_db blank_rows "PInt 10" "SInt 10" ?r10]
      a n1 n2 b1 b2 c10 p10 s10 d10 ne unfolding f by simp
  have 2: "get_card_translation_id ?st (PInt 13) = Inr (PInt 13)"
    using empty_translation_falls_through[of ?st ex_db blank_rows "PInt 13" "SInt 13" ?r13]
      a n1 n2 b1 b2 c13 p13 s13 d13 ne unfolding f by simp
  from la ld a n1 n2 b1 b2 c10 p10 s10 1 c13 p13 s13 d13 2 show ?thesis by blast
qed

text \<open>
  The claim as written fails when the statement on the active table cannot be executed.
  On the catalog with the tables \<open>Localizations_enUS\<close> and \<open>Localizations_ja-JP\<close>,
  with the hyphenated table active, the row of identifier 10 with the greatest
  \<open>Formatted\<close> in the active table has the empty text and the default table holds
  "Lightning Bolt" for it; the lookup raises, there is no fall through, and the
  identifier is returned.
\<close>

theorem empty_translation_falls_through_counterexample:
  "lang_table (snd (set_language hyphen_reader ''ja-jp'')) = Some ''Localizations_ja-JP''
   \<and> default_lang_table (snd (set_language hyphen_reader ''ja-jp'')) = Some ''Localizations_enUS''
   \<and> dict_get (connections (snd (set_language hyphen_reader ''ja-jp''))) ''CardDatabase''
        = Some hyphen_db
   \<and> dict_get (loc_tables hyphen_db) ''Localizations_ja-JP'' = Some blank_rows
   \<and> select_loc blank_rows (SInt 10) = Some \<lparr>LocId = SInt 10, Loc = SText [], Formatted = SInt 1\<rparr>
   \<and> lookup_localization (snd (set_language hyphen_reader ''ja-jp'')) (PInt 10)
        (Some ''Localizations_enUS'') = Inr (PStr ''Lightning Bolt'')
   \<and> get_card_translation_id (snd (set_language hyphen_reader ''ja-jp'')) (PInt 10)
        = Inr (PInt 10)"
  by code_simp

section \<open>Properties of the language resolver\<close>

lemma replace_single: "replace s [c] [] = filter (\<lambda>x. x \<noteq> c) s"
  by (induction s "[c]" "[]::string" rule: replace.induct) auto

lemma normalize_alt: "normalize s = map lower_char (filter (\<lambda>x. \<not> is_sep x) s)"
  by (auto simp: normalize_def lower_def replace_single is_sep_def intro: filter_cong)

lemma same_ident_normalize: "same_ident a b \<Longrightarrow> normalize a = normalize b"
  by (induction a b rule: same_ident.induct) (auto simp: normalize_alt split: if_splits)

lemma dict_keys_set: "set (dict_keys (dict_set d k v)) = insert k (set (dict_keys d))"
  unfolding dict_keys_def by (induction d) force+

lemma build_langs_keys:
  "build_langs names d = Inr langs \<Longrightarrow>
   set (dict_keys langs) =
     set (dict_keys d) \<union> (\<lambda>n. normalize (split n ''Localizations_'' ! 1)) ` set names"
proof (induction names arbitrary: d)
  case Nil
  then show ?case by simp
next
  case (Cons n names)
  then show ?case
    by (auto simp: dict_keys_set split: list.splits)
qed

lemma build_langs_nonempty: "build_langs names [] = Inr langs \<Longrightarrow> langs \<noteq> [] \<Longrightarrow> names \<noteq> []"
  by (cases names) auto

lemma split_from_nonempty: "split_from sep acc s \<noteq> []"
  by (induction sep acc s rule: split_from.induct) auto

lemma split_from_two:
  "sep \<noteq> [] \<Longrightarrow> contains sep s \<Longrightarrow> \<exists>p c rest. split_from sep acc s = p # c # rest"
proof (induction s arbitrary: acc)
  case Nil
  then show ?case by simp
next
  case (Cons x xs)
  show ?case
  proof (cases "prefix sep (x # xs)")
    case True
    obtain c rest where "split_from sep [] (drop (length sep) (x # xs)) = c # rest"
      using split_from_nonempty[of sep "[]" "drop (length sep) (x # xs)"]
      by (cases "split_from sep [] (drop (length sep) (x # xs))") auto
    with True Cons.prems(1) show ?thesis by simp
  next
    case False
    with Cons.prems have "contains sep xs" by simp
    from Cons.IH[OF Cons.prems(1) this, of "x # acc"] False show ?thesis by simp
  qed
qed

lemma build_langs_total:
  "\<forall>n \<in> set names. contains ''Localizations_'' n \<Longrightarrow> \<exists>langs. build_langs names d = Inr langs"
proof (induction names arbitrary: d)
  case Nil
  then show ?case by simp
next
  case (Cons n names)
  then have "contains ''Localizations_'' n" by simp
  then obtain p c rest where "split n ''Localizations_'' = p # c # rest"
    unfolding split_def using split_from_two[of "''Localizations_''" n "[]"] by auto
  with Cons show ?case by simp
qed

lemma contains_sublist: "contains sub s \<longleftrightarrow> sublist sub s"
  by (induction s) (auto simp: sublist_Cons_right)

lemma contains_join: "k \<in> set xs \<Longrightarrow> contains k (join sep xs)"
proof (induction sep xs rule: join.induct)
  case (3 sep x y ys)
  show ?case
  proof (cases "k = x")
    case True
    then show ?thesis by (simp add: contains_sublist del: contains.simps)
  next
    case False
    with 3 have "contains k (join sep (y # ys))" by simp
    then have "sublist k (join sep (y # ys))" by (simp only: contains_sublist)
    then obtain ps ss where "join sep (y # ys) = ps @ k @ ss" by (auto simp: sublist_def)
    then have "join sep (x # y # ys) = (x @ sep @ ps) @ k @ ss" by simp
    then have "sublist k (join sep (x # y # ys))" unfolding sublist_def by blast
    then show ?thesis by (simp only: contains_sublist)
  qed
qed (auto simp: contains_sublist)

lemma contains_not_available:
  assumes "k \<in> set (dict_keys langs)"
  shows "contains k (not_available lng langs)"
proof -
  have "k \<in> set (sort (dict_keys langs))" using assms by simp
  then have "sublist k (join '', '' (sort (dict_keys langs)))"
    using contains_join contains_sublist by blast
  then obtain ps ss where "join '', '' (sort (dict_keys langs)) = ps @ k @ ss"
    by (auto simp: sublist_def)
  then have "not_available lng langs
      = (''Language '' @ [CHR 0x27] @ lng @ [CHR 0x27] @ '' not available. Options: '' @ ps) @ k @ ss"
    by (simp add: not_available_def)
  then have "sublist k (not_available lng langs)" unfolding sublist_def by blast
  then show ?thesis by (simp only: contains_sublist)
qed

lemma set_language_unmatched:
  assumes "dict_get (connections st) ''CardDatabase'' = Some db"
    and "is_database db"
    and "build_langs (available_tables db) [] = Inr langs"
    and "dict_get langs (normalize lng) = None"
  shows "fst (set_language st lng) =
           Inl (ValueError (if langs = [] then ''No localization tables found in CardDatabase.''
                            else not_available lng langs))"
proof (cases "langs = []")
  case True
  with assms show ?thesis by (simp add: set_language_def)
next
  case False
  with assms(3) have "available_tables db \<noteq> []" by (rule build_langs_nonempty)
  then obtain n ns where "available_tables db = n # ns" by (cases "available_tables db") auto
  with assms False show ?thesis
    by (auto simp: set_language_def Let_def split: option.splits)
qed

lemma set_language_normalize:
  "normalize a = normalize b \<Longrightarrow>
   selected_table (set_language st a) = selected_table (set_language st b)
   \<and> lang_table (snd (set_language st a)) = lang_table (snd (set_language st b))
   \<and> default_lang_table (snd (set_language st a)) = default_lang_table (snd (set_language st b))"
  by (auto simp: set_language_def selected_table_def Let_def
      split: option.splits sum.splits list.splits)

text \<open>
  C4, as the code has it. With the card database connected and every table that the
  catalog query lists holding the text \<open>Localizations_\<close> in its name, the language keys
  are built: they are the normalized language codes of all the tables listed; and when
  the requested language matches none of them, \<open>set_language\<close> raises ValueError, each
  key occurring in the message. When the card database the reader connects to has no
  localization table, the construction of the reader ends with an error: ValueError
  for a database, DatabaseError for a file that is not one.
\<close>

theorem set_language_validation_error:
  "(dict_get (connections st) ''CardDatabase'' = Some db \<and> is_database db
      \<and> (\<forall>n \<in> set (available_tables db). contains ''Localizations_'' n)
    \<longrightarrow> (\<exists>langs. build_langs (available_tables db) [] = Inr langs
           \<and> set (dict_keys langs)
               = (\<lambda>n. normalize (split n ''Localizations_'' ! 1)) ` set (available_tables db)
           \<and> (normalize lng \<notin> set (dict_keys langs)
                \<longrightarrow> fst (set_language st lng) =
                      Inl (ValueError (if langs = []
                                       then ''No localization tables found in CardDatabase.''
                                       else not_available lng langs))
                    \<and> (\<forall>k \<in> set (dict_keys langs). contains k (not_available lng langs)))))
   \<and> (dict_get (connections (snd (get_databases fs (initial_reader root lng :: 'a reader))))
          ''CardDatabase'' = Some db'
      \<and> available_tables db' = []
    \<longrightarrow> (mtga_reader_init fs root lng :: error + 'a reader)
          = Inl (if is_database db'
                 then ValueError ''No localization tables found in CardDatabase.''
                 else DatabaseError))"
proof (intro conjI impI)
  assume h: "dict_get (connections st) ''CardDatabase'' = Some db \<and> is_database db
      \<and> (\<forall>n \<in> set (available_tables db). contains ''Localizations_'' n)"
  then obtain langs where b: "build_langs (available_tables db) [] = Inr langs"
    using build_langs_total by blast
  have k: "set (dict_keys langs)
      = (\<lambda>n. normalize (split n ''Localizations_'' ! 1)) ` set (available_tables db)"
    using build_langs_keys[OF b] by (simp add: dict_keys_def)
  have u: "normalize lng \<notin> set (dict_keys langs)
      \<longrightarrow> fst (set_language st lng) =
            Inl (ValueError (if langs = []
                             then ''No localization tables found in CardDatabase.''
                             else not_available lng langs))
          \<and> (\<forall>k \<in> set (dict_keys langs). contains k (not_available lng langs))"
  proof
    assume "normalize lng \<notin> set (dict_keys langs)"
    then have "dict_get langs (normalize lng) = None"
      by (simp add: dict_get_def dict_keys_def map_of_eq_None_iff)
    with h b show "fst (set_language st lng) =
            Inl (ValueError (if langs = []
                             then ''No localization tables found in CardDatabase.''
                             else not_available lng langs))
          \<and> (\<forall>k \<in> set (dict_keys langs). contains k (not_available lng langs))"
      using set_language_unmatched contains_not_available by blast
  qed
  from b k u show "\<exists>langs. build_langs (available_tables db) [] = Inr langs
           \<and> set (dict_keys langs)
               = (\<lambda>n. normalize (split n ''Localizations_'' ! 1)) ` set (available_tables db)
           \<and> (normalize lng \<notin> set (dict_keys langs)
                \<longrightarrow> fst (set_language st lng) =
                      Inl (ValueError (if langs = []
                                       then ''No localization tables found in CardDatabase.''
                                       else not_available lng langs))
                    \<and> (\<forall>k \<in> set (dict_keys langs). contains k (not_available lng langs)))"
    by blast
next
  assume "dict_get (connections (snd (get_databases fs (initial_reader root lng :: 'a reader))))
          ''CardDatabase'' = Some db'
      \<and> available_tables db' = []"
  then show "(mtga_reader_init fs root lng :: error + 'a reader)
          = Inl (if is_database db'
                 then ValueError ''No localization tables found in CardDatabase.''
                 else DatabaseError)"
    by (simp add: mtga_reader_init_def set_language_def Let_def)
qed

text \<open>
  The scenario of the specification: \<open>xx\<close> against the tables \<open>Localizations_enUS\<close> and
  \<open>Localizations_jaJP\<close>; and a game directory whose card database has no localization
  table.
\<close>

theorem set_language_validation_error_witness:
  "dict_get (connections (ex_reader ''Localizations_enUS'' ''Localizations_enUS''))
      ''CardDatabase'' = Some ex_db
   \<and> is_database ex_db
   \<and> available_tables ex_db = [''Localizations_enUS'', ''Localizations_jaJP'']
   \<and> list_all (contains ''Localizations_'') (available_tables ex_db)
   \<and> build_langs (available_tables ex_db) []
       = Inr [(''enus'', ''Localizations_enUS''), (''jajp'', ''Localizations_jaJP'')]
   \<and> normalize ''xx'' \<notin> {''enus'', ''jajp''}
   \<and> fst (set_language (ex_reader ''Localizations_enUS'' ''Localizations_enUS'') ''xx'')
       = Inl (ValueError ''Language 'xx' not available. Options: enus, jajp'')
   \<and> contains ''enus'' ''Language 'xx' not available. Options: enus, jajp''
   \<and> contains ''jajp'' ''Language 'xx' not available. Options: enus, jajp''
   \<and> dict_get (connections (snd (get_databases (ex_fs bare_db)
          (initial_reader ''m'' ''en'' :: nat reader)))) ''CardDatabase'' = Some bare_db
   \<and> available_tables bare_db = []
   \<and> (mtga_reader_init (ex_fs bare_db) ''m'' ''en'' :: error + nat reader)
       = Inl (ValueError ''No localization tables found in CardDatabase.'')"
proof -
  let ?st = "ex_reader ''Localizations_enUS'' ''Localizations_enUS''"
  let ?langs = "[(''enus'', ''Localizations_enUS''), (''jajp'', ''Localizations_jaJP'')]"
  have a: "dict_get (connections ?st) ''CardDatabase'' = Some ex_db" by code_simp
  have i: "is_database ex_db" by code_simp
  have t: "available_tables ex_db = [''Localizations_enUS'', ''Localizations_jaJP'']"
    by code_simp
  have l: "list_all (contains ''Localizations_'') (available_tables ex_db)" by code_simp
  then have l': "\<forall>n \<in> set (available_tables ex_db). contains ''Localizations_'' n"
    by (simp add: list_all_iff)
  have b: "build_langs (available_tables ex_db) [] = Inr ?langs" by code_simp
  have c: "normalize ''xx'' \<notin> {''enus'', ''jajp''}" by code_simp
  have m: "not_available ''xx'' ?langs = ''Language 'xx' not available. Options: enus, jajp''"
    by code_simp
  have k: "set (dict_keys ?langs) = {''enus'', ''jajp''}" by (auto simp: dict_keys_def)
  have d: "dict_get (connections (snd (get_databases (ex_fs bare_db)
          (initial_reader ''m'' ''en'' :: nat reader)))) ''CardDatabase'' = Some bare_db"
    by code_simp
  have e: "available_tables bare_db = []" by code_simp
  have ib: "is_database bare_db" by code_simp
  from set_language_validation_error[of ?st ex_db "''xx''" "ex_fs bare_db" "''m''" bare_db] a i l'
  obtain langs where bl: "build_langs (available_tables ex_db) [] = Inr langs"
    and u: "normalize ''xx'' \<notin> set (dict_keys langs)
      \<longrightarrow> fst (set_language ?st ''xx'') =
            Inl (ValueError (if langs = []
                             then ''No localization tables found in CardDatabase.''
                             else not_available ''xx'' langs))
          \<and> (\<forall>k \<in> set (dict_keys langs). contains k (not_available ''xx'' langs))"
    by blast
  from bl b have lg: "langs = ?langs" by simp
  from u c have 1: "fst (set_language ?st ''xx'')
       = Inl (ValueError ''Language 'xx' not available. Options: enus, jajp'')"
    and ks: "\<forall>k \<in> set (dict_keys ?langs). contains k (not_available ''xx'' ?langs)"
    unfolding lg k m by simp_all
  from ks have 2: "contains ''enus'' ''Language 'xx' not available. Options: enus, jajp''"
    and 3: "contains ''jajp'' ''Language 'xx' not available. Options: enus, jajp''"
    unfolding m k by blast+
  from set_language_validation_error[of ?st ex_db "''en''" "ex_fs bare_db" "''m''" bare_db] d e ib
  have 4: "(mtga_reader_init (ex_fs bare_db) ''m'' ''en'' :: error + nat reader)
       = Inl (ValueError ''No localization tables found in CardDatabase.'')"
    by simp
  from a i t l b c 1 2 3 d e 4 show ?thesis by blast
qed

text \<open>
  The claim as written fails: the catalog query also lists a table named
  \<open>localizations_deDE\<close>, whose name does not hold the text \<open>Localizations_\<close>, and
  \<open>set_language\<close> then raises IndexError for the unmatched language \<open>xx\<close>.
\<close>

theorem set_language_validation_error_counterexample:
  "dict_get (connections lower_reader) ''CardDatabase'' = Some lower_db
   \<and> is_database lower_db
   \<and> available_tables lower_db = [''Localizations_enUS'', ''localizations_deDE'']
   \<and> fst (set_language lower_reader ''xx'') = Inl IndexError"
  by code_simp

text \<open>
  C5. Two language identifiers that differ only in letter case or in hyphen and
  underscore separators make \<open>set_language\<close> select the same localization table (or fail
  alike), and leave the same active and default table in the reader.
\<close>

theorem set_language_case_separator_insensitive:
  "same_ident a b \<Longrightarrow>
   selected_table (set_language st a) = selected_table (set_language st b)
   \<and> lang_table (snd (set_language st a)) = lang_table (snd (set_language st b))
   \<and> default_lang_table (snd (set_language st a)) = default_lang_table (snd (set_language st b))"
  using same_ident_normalize set_language_normalize by blast

text \<open>The scenario of the specification: \<open>en_us\<close>, and \<open>EN-US\<close> with it, select
  \<open>Localizations_enUS\<close> among \<open>Localizations_enUS\<close> and \<open>Localizations_jaJP\<close>.\<close>

theorem set_language_case_separator_insensitive_witness:
  "same_ident ''en_us'' ''EN-US''
   \<and> map fst (loc_tables ex_db) = [''Localizations_enUS'', ''Localizations_jaJP'']
   \<and> selected_table (set_language (ex_reader ''Localizations_jaJP'' ''Localizations_jaJP'') ''en_us'')
       = Some ''Localizations_enUS''
   \<and> selected_table (set_language (ex_reader ''Localizations_jaJP'' ''Localizations_jaJP'') ''EN-US'')
       = Some ''Localizations_enUS''"
proof -
  let ?st = "ex_reader ''Localizations_jaJP'' ''Localizations_jaJP''"
  have a: "same_ident ''en_us'' ''EN-US''" by code_simp
  have b: "map fst (loc_tables ex_db) = [''Localizations_enUS'', ''Localizations_jaJP'']"
    by code_simp
  have c: "selected_table (set_language ?st ''en_us'') = Some ''Localizations_enUS''"
    by code_simp
  from set_language_case_separator_insensitive[OF a, of ?st] c
  have "selected_table (set_language ?st ''EN-US'') = Some ''Localizations_enUS''" by simp
  with a b c show ?thesis by blast
qed

section \<open>Properties of the art extractor\<close>

lemma dict_get_set: "dict_get (dict_set d k v) k' = (if k' = k then Some v else dict_get d k')"
  unfolding dict_get_def by (induction d) auto

lemma label_asset_keys:
  "set (dict_keys (label_asset cid po ret)) = set (dict_keys ret) \<union> set (asset_labels cid po)"
  by (cases po) (auto simp: label_asset_def asset_labels_def Let_def dict_keys_set)

lemma label_asset_other:
  "k \<notin> set (asset_labels cid po) \<Longrightarrow> dict_get (label_asset cid po ret) k = dict_get ret k"
  by (cases po) (auto simp: label_asset_def asset_labels_def Let_def dict_get_set split: if_splits)

lemma fold_label_keys:
  "set (dict_keys (fold (label_asset cid) c ret))
     = set (dict_keys ret) \<union> set (concat (map (asset_labels cid) c))"
  by (induction c arbitrary: ret) (auto simp: label_asset_keys)

lemma fold_label_other:
  "k \<notin> set (concat (map (asset_labels cid) c)) \<Longrightarrow>
   dict_get (fold (label_asset cid) c ret) k = dict_get ret k"
  by (induction c arbitrary: ret) (auto simp: label_asset_other)

lemma fold_files_keys:
  "set (dict_keys (fold (\<lambda>f ret. fold (label_asset cid) (container f) ret) files ret))
     = set (dict_keys ret)
       \<union> set (concat (map (\<lambda>f. concat (map (asset_labels cid) (container f))) files))"
  by (induction files arbitrary: ret) (auto simp: fold_label_keys)

lemma fold_files_other:
  "k \<notin> set (concat (map (\<lambda>f. concat (map (asset_labels cid) (container f))) files)) \<Longrightarrow>
   dict_get (fold (\<lambda>f ret. fold (label_asset cid) (container f) ret) files ret) k = dict_get ret k"
  by (induction files arbitrary: ret) (auto simp: fold_label_other)

text \<open>
  C7, as the code has it. The result of \<open>find_card_art_file\<close> always has the keys
  \<open>image\<close> and \<open>util\<close>; its other keys are the labels of the image assets found. A key
  under which no asset was stored maps to \<open>None\<close> when it is \<open>image\<close> or \<open>util\<close>, and is
  absent otherwise.
\<close>

theorem art_result_roles:
  "set (dict_keys (find_card_art_file fs st card_id))
     = {''image'', ''util''} \<union> set (found_labels fs st card_id)
   \<and> (\<forall>k. k \<notin> set (found_labels fs st card_id) \<longrightarrow>
          dict_get (find_card_art_file fs st card_id) k
            = (if k = ''image'' \<or> k = ''util'' then Some PNone else None))"
proof (intro conjI allI impI)
  show "set (dict_keys (find_card_art_file fs st card_id))
     = {''image'', ''util''} \<union> set (found_labels fs st card_id)"
    unfolding find_card_art_file_def found_labels_def fold_files_keys
    by (simp add: dict_keys_def)
next
  fix k assume "k \<notin> set (found_labels fs st card_id)"
  then show "dict_get (find_card_art_file fs st card_id) k
            = (if k = ''image'' \<or> k = ''util'' then Some PNone else None)"
    unfolding find_card_art_file_def found_labels_def
    by (simp add: fold_files_other) (simp add: dict_get_def)
qed

text \<open>A bundle that only holds the utility mask of art 123: \<open>image\<close> is present with
  \<open>None\<close>, and the key \<open>other\<close> is absent.\<close>

theorem art_result_roles_witness:
  "found_labels [beside_bundle] (ex_reader ''Localizations_enUS'' ''Localizations_enUS'') (SInt 123)
     = [''util'', ''Util'']
   \<and> dict_get (find_card_art_file [beside_bundle]
         (ex_reader ''Localizations_enUS'' ''Localizations_enUS'') (SInt 123)) ''image'' = Some PNone
   \<and> dict_get (find_card_art_file [beside_bundle]
         (ex_reader ''Localizations_enUS'' ''Localizations_enUS'') (SInt 123)) ''other'' = None"
proof -
  let ?st = "ex_reader ''Localizations_enUS'' ''Localizations_enUS''"
  have a: "found_labels [beside_bundle] ?st (SInt 123) = [''util'', ''Util'']" by code_simp
  have b: "''image'' \<notin> set (found_labels [beside_bundle] ?st (SInt 123))"
    unfolding a by simp
  have c: "''other'' \<notin> set (found_labels [beside_bundle] ?st (SInt 123))"
    unfolding a by simp
  from art_result_roles[of "[beside_bundle]" ?st "SInt 123"] b
  have d: "dict_get (find_card_art_file [beside_bundle] ?st (SInt 123)) ''image'' = Some PNone"
    by simp
  from art_result_roles[of "[beside_bundle]" ?st "SInt 123"] c
  have e: "dict_get (find_card_art_file [beside_bundle] ?st (SInt 123)) ''other'' = None"
    by simp
  from a d e show ?thesis by blast
qed

text \<open>The claim as written fails: with no bundle found, the result still has the keys
  \<open>image\<close> and \<open>util\<close>.\<close>

theorem art_result_roles_counterexample:
  "glob_glob ([] :: nat file_entry list)
      (art_pattern (ex_reader ''Localizations_enUS'' ''Localizations_enUS'') (SInt 123)) = []
   \<and> dict_keys (find_card_art_file []
        (ex_reader ''Localizations_enUS'' ''Localizations_enUS'') (SInt 123))
      = [''image'', ''util'']"
  by code_simp

text \<open>
  C8 at a concrete game directory \<open>m\<close>. The assets directory is
  \<open>m/MTGA_Data/Downloads/AssetBundle\<close>, and the pattern has no separator between it and
  the padded identifier: the bundle of art 123 inside the assets directory is not found,
  and a file beside the directory whose name starts with \<open>AssetBundle000123\<close> is.
\<close>

theorem art_search_misses_assets_directory:
  "mtga_assets_dir (initial_reader ''m'' ''en'' :: nat reader)
     = ''m/MTGA_Data/Downloads/AssetBundle''
   \<and> art_pattern (initial_reader ''m'' ''en'' :: nat reader) (SInt 123)
     = ''m/MTGA_Data/Downloads/AssetBundle000123*.mtga''
   \<and> file_name inside_bundle = ''m/MTGA_Data/Downloads/AssetBundle/000123_CardArt_ab.mtga''
   \<and> glob_glob [inside_bundle, beside_bundle]
        (art_pattern (initial_reader ''m'' ''en'' :: nat reader) (SInt 123)) = [beside_bundle]
   \<and> find_card_art_file [inside_bundle] (initial_reader ''m'' ''en'') (SInt 123)
     = [(''image'', PNone), (''util'', PNone)]"
  by code_simp

section \<open>Properties of discovery\<close>

lemma unique_resolved:
  "resolve io ` set (unique io ps up seen)
     = resolve io ` set up
       \<union> resolve io ` {p \<in> set ps. lower (suffix_of io p) = ''.mtga'' \<and> resolve io p \<notin> seen}"
  if "seen = resolve io ` set up"
  using that
proof (induction ps arbitrary: up seen)
  case Nil
  then show ?case by simp
next
  case (Cons p ps)
  show ?case
  proof (cases "lower (suffix_of io p) = ''.mtga'' \<and> resolve io p \<notin> seen")
    case True
    have s: "insert (resolve io p) seen = resolve io ` set (up @ [p])"
      using Cons.prems by auto
    from True Cons.IH[OF s] show ?thesis
      using Cons.prems by auto
  next
    case False
    with Cons.IH[OF Cons.prems] Cons.prems show ?thesis by auto
  qed
qed

lemma unique_subset:
  "set (unique io ps up seen) \<subseteq> set up \<union> {p \<in> set ps. lower (suffix_of io p) = ''.mtga''}"
proof (induction ps arbitrary: up seen)
  case Nil
  then show ?case by simp
next
  case (Cons p ps)
  show ?case
    using Cons.IH[of up seen] Cons.IH[of "up @ [p]" "insert (resolve io p) seen"]
    by auto
qed

lemma unique_distinct:
  "distinct (map (resolve io) (unique io ps up seen))"
  if "seen = resolve io ` set up" "distinct (map (resolve io) up)"
  using that
proof (induction ps arbitrary: up seen)
  case Nil
  then show ?case by simp
next
  case (Cons p ps)
  show ?case
  proof (cases "lower (suffix_of io p) = ''.mtga'' \<and> resolve io p \<notin> seen")
    case True
    have s: "insert (resolve io p) seen = resolve io ` set (up @ [p])"
      using Cons.prems by auto
    have d: "distinct (map (resolve io) (up @ [p]))"
      using Cons.prems True by auto
    from True Cons.IH[OF s d] show ?thesis by auto
  next
    case False
    with Cons.IH[OF Cons.prems] show ?thesis by auto
  qed
qed

lemma distinct_map_once:
  "distinct (map f xs) \<Longrightarrow> y \<in> f ` set xs \<Longrightarrow> length (filter (\<lambda>q. f q = y) xs) = 1"
proof (induction xs)
  case Nil
  then show ?case by simp
next
  case (Cons x xs)
  show ?case
  proof (cases "f x = y")
    case True
    with Cons.prems have "y \<notin> f ` set xs" by simp
    then have "\<forall>q \<in> set xs. f q \<noteq> y" by blast
    then have "filter (\<lambda>q. f q = y) xs = []" by (simp add: filter_empty_conv)
    with True show ?thesis by simp
  next
    case False
    with Cons show ?thesis by auto
  qed
qed

lemma distinct_map_sort:
  "distinct (map f (sort xs)) = distinct (map f xs)"
  by (simp add: distinct_map)

text \<open>
  C9. When \<open>discover_databases\<close> returns, the list is sorted, no two of its paths
  resolve to the same file, every path in it was discovered and has the suffix
  \<open>.mtga\<close>, and every discovered path with that suffix has its resolved path exactly
  once among the resolved paths of the list.
\<close>

theorem discover_databases_unique_sorted:
  assumes "discover_databases io targets recursive = Inr result"
  shows "sorted result
       \<and> distinct (map (resolve io) result)
       \<and> (\<exists>discovered. discover io recursive targets [] = Inr discovered
            \<and> set result \<subseteq> {p \<in> set discovered. lower (suffix_of io p) = ''.mtga''}
            \<and> (\<forall>p \<in> set discovered. lower (suffix_of io p) = ''.mtga'' \<longrightarrow>
                  length (filter (\<lambda>q. resolve io q = resolve io p) result) = 1))"
proof -
  from assms obtain discovered where d: "discover io recursive targets [] = Inr discovered"
    and r: "result = sort (unique io discovered [] {})"
    by (auto simp: discover_databases_def split: sum.splits)
  let ?u = "unique io discovered [] {}"
  have dist: "distinct (map (resolve io) ?u)" by (rule unique_distinct) simp_all
  have res: "resolve io ` set ?u
      = resolve io ` {p \<in> set discovered. lower (suffix_of io p) = ''.mtga''}"
    using unique_resolved[of "{}" io "[]" discovered] by simp
  have sub: "set ?u \<subseteq> {p \<in> set discovered. lower (suffix_of io p) = ''.mtga''}"
    using unique_subset[of io discovered "[]" "{}"] by simp
  have 1: "sorted result" using r by simp
  have 2: "distinct (map (resolve io) result)" using r dist by (simp add: distinct_map_sort)
  have 3: "set result \<subseteq> {p \<in> set discovered. lower (suffix_of io p) = ''.mtga''}"
    using r sub by simp
  have 4: "\<forall>p \<in> set discovered. lower (suffix_of io p) = ''.mtga'' \<longrightarrow>
        length (filter (\<lambda>q. resolve io q = resolve io p) result) = 1"
  proof (intro ballI impI)
    fix p assume "p \<in> set discovered" "lower (suffix_of io p) = ''.mtga''"
    then have "resolve io p \<in> resolve io ` set ?u" unfolding res by blast
    then have "resolve io p \<in> resolve io ` set result" using r by simp
    with 2 show "length (filter (\<lambda>q. resolve io q = resolve io p) result) = 1"
      by (rule distinct_map_once)
  qed
  from d 1 2 3 4 show ?thesis by blast
qed

text \<open>The targets \<open>link.mtga\<close>, \<open>data\<close> and \<open>data/*\<close>: the file behind \<open>link.mtga\<close> and
  \<open>data/a.mtga\<close> is listed once, under the name met first.\<close>

theorem discover_databases_unique_sorted_witness:
  "discover_databases ex_io [''link.mtga'', ''data'', ''data/*''] False
     = Inr [[''data'', ''b.mtga''], [''link.mtga'']]
   \<and> resolve ex_io [''link.mtga''] = resolve ex_io [''data'', ''a.mtga'']
   \<and> sorted [[''data'', ''b.mtga''], [''link.mtga'']]
   \<and> distinct (map (resolve ex_io) [[''data'', ''b.mtga''], [''link.mtga'']])"
proof -
  have a: "discover_databases ex_io [''link.mtga'', ''data'', ''data/*''] False
     = Inr [[''data'', ''b.mtga''], [''link.mtga'']]"
    by code_simp
  have b: "resolve ex_io [''link.mtga''] = resolve ex_io [''data'', ''a.mtga'']"
    by code_simp
  from discover_databases_unique_sorted[OF a] a b show ?thesis by blast
qed


section \<open>Properties of the card resolver\<close>

lemma abilities_always_returns: "\<exists>v. get_card_abilities st a = Inr v"
  by (auto simp: get_card_abilities_def split: sum.splits)

lemma card_field_shape:
  assumes "card_field fs st ga (k, v) tmp = Inr t1"
  shows "\<exists>x. t1 = dict_set tmp (written_key k) x
            \<and> (v = SNull \<longrightarrow> x = PNone)
            \<and> (written_key k = k \<and> \<not> contains ''TextId'' k \<and> \<not> contains ''TitleId'' k
                 \<and> \<not> contains ''AbilityIds'' k \<and> \<not> contains ''ArtId'' k \<longrightarrow> x = of_sql v)"
  using assms
  by (auto simp: card_field_def written_key_def ebind_def split: if_splits sum.splits)

lemma card_field_total: "\<exists>t1. card_field fs st ga kv tmp = Inr t1"
proof -
  obtain k v where kv: "kv = (k, v)" by (cases kv)
  obtain a where a: "get_card_translation_id st (of_sql v) = Inr a"
    using translation_always_returns by blast
  obtain b where b: "get_card_abilities st (of_sql v) = Inr b"
    using abilities_always_returns by blast
  show ?thesis unfolding kv by (simp add: card_field_def ebind_def a b)
qed

lemma efold_card_total: "\<exists>t. efold (card_field fs st ga) r tmp = Inr t"
proof (induction r arbitrary: tmp)
  case Nil
  then show ?case by simp
next
  case (Cons kv r)
  obtain t1 where "card_field fs st ga kv tmp = Inr t1" using card_field_total by blast
  with Cons show ?case by simp
qed

lemma efold_art:
  assumes "efold (card_field fs st ga) r tmp = Inr t"
    and "list_all (\<lambda>(k, v). written_key k = ''art'' \<longrightarrow> v = SNull) r"
  shows "dict_get t ''art''
           = (if list_ex (\<lambda>(k, v). written_key k = ''art'') r then Some PNone
              else dict_get tmp ''art'')"
  using assms
proof (induction r arbitrary: tmp)
  case Nil
  then show ?case by simp
next
  case (Cons kv r)
  obtain k v where kv: "kv = (k, v)" by (cases kv)
  obtain t1 where t1: "card_field fs st ga (k, v) tmp = Inr t1" using card_field_total by blast
  with Cons.prems kv have rest: "efold (card_field fs st ga) r t1 = Inr t" by simp
  from Cons.prems kv have all: "list_all (\<lambda>(k, v). written_key k = ''art'' \<longrightarrow> v = SNull) r"
    and here: "written_key k = ''art'' \<longrightarrow> v = SNull" by auto
  note IH = Cons.IH[OF rest all]
  from card_field_shape[OF t1] obtain x where
    x: "t1 = dict_set tmp (written_key k) x" "v = SNull \<longrightarrow> x = PNone" by blast
  show ?case
  proof (cases "written_key k = ''art''")
    case True
    with here x have "dict_get t1 ''art'' = Some PNone" by (simp add: dict_get_set)
    with IH True kv show ?thesis by simp
  next
    case False
    with x have "dict_get t1 ''art'' = dict_get tmp ''art''" by (simp add: dict_get_set)
    with IH False kv show ?thesis by simp
  qed
qed

lemma get_card_by_id_first_row:
  assumes "dict_get (connections st) ''CardDatabase'' = Some db"
    and "is_database db"
    and "Cards db = Some rows"
    and "to_sql card_id = Inr cid"
    and "filter (\<lambda>r. sql_eq (col r ''GrpId'') cid) rows = r # rest"
  shows "\<exists>tmp. efold (card_field fs st ga) r [] = Inr tmp
           \<and> get_card_by_id fs st card_id ga = Inr (PDict tmp)"
proof -
  obtain tmp where t: "efold (card_field fs st ga) r [] = Inr tmp"
    using efold_card_total by blast
  with assms have "get_card_by_id fs st card_id ga = Inr (PDict tmp)"
    by (simp add: get_card_by_id_def ebind_def)
  with t show ?thesis by blast
qed

text \<open>
  C6, as the code has it. With the card database connected and a \<open>Cards\<close> table in it:
  for an identifier that SQLite can bind and that no row of \<open>Cards\<close> has,
  \<open>get_card_by_id\<close> returns \<open>None\<close> and does not raise; for an identifier that cannot be
  bound (an integer outside 64 bits, a dictionary) it raises the error of the binding;
  and when the row found has a column stored under \<open>art\<close> and every such column is
  NULL, the record is returned with \<open>art\<close> equal to \<open>None\<close>, also with art inclusion
  requested.
\<close>

theorem get_card_by_id_absent_or_null_art:
  "(dict_get (connections st) ''CardDatabase'' = Some db \<and> is_database db
      \<and> Cards db = Some rows
      \<and> to_sql card_id = Inr cid \<and> plain_param cid
      \<and> \<not> list_ex (\<lambda>r. sql_eq (col r ''GrpId'') cid) rows
    \<longrightarrow> get_card_by_id fs st card_id get_art = Inr PNone)
   \<and> (dict_get (connections st) ''CardDatabase'' = Some db \<and> is_database db
      \<and> Cards db = Some rows
      \<and> to_sql card_id = Inl e
    \<longrightarrow> get_card_by_id fs st card_id get_art = Inl e)
   \<and> (dict_get (connections st) ''CardDatabase'' = Some db \<and> is_database db
      \<and> Cards db = Some rows
      \<and> to_sql card_id = Inr cid \<and> plain_param cid
      \<and> filter (\<lambda>r. sql_eq (col r ''GrpId'') cid) rows = r # rest
      \<and> list_ex (\<lambda>(k, v). written_key k = ''art'') r
      \<and> list_all (\<lambda>(k, v). written_key k = ''art'' \<longrightarrow> v = SNull) r
    \<longrightarrow> (\<exists>tmp. get_card_by_id fs st card_id True = Inr (PDict tmp)
           \<and> dict_get tmp ''art'' = Some PNone))"
proof (intro conjI impI)
  assume "dict_get (connections st) ''CardDatabase'' = Some db \<and> is_database db
      \<and> Cards db = Some rows
      \<and> to_sql card_id = Inr cid \<and> plain_param cid
      \<and> \<not> list_ex (\<lambda>r. sql_eq (col r ''GrpId'') cid) rows"
  then show "get_card_by_id fs st card_id get_art = Inr PNone"
    by (simp add: get_card_by_id_def ebind_def filter_none)
next
  assume "dict_get (connections st) ''CardDatabase'' = Some db \<and> is_database db
      \<and> Cards db = Some rows
      \<and> to_sql card_id = Inl e"
  then show "get_card_by_id fs st card_id get_art = Inl e"
    by (simp add: get_card_by_id_def ebind_def)
next
  assume h: "dict_get (connections st) ''CardDatabase'' = Some db \<and> is_database db
      \<and> Cards db = Some rows
      \<and> to_sql card_id = Inr cid \<and> plain_param cid
      \<and> filter (\<lambda>r. sql_eq (col r ''GrpId'') cid) rows = r # rest
      \<and> list_ex (\<lambda>(k, v). written_key k = ''art'') r
      \<and> list_all (\<lambda>(k, v). written_key k = ''art'' \<longrightarrow> v = SNull) r"
  then obtain tmp where t: "efold (card_field fs st True) r [] = Inr tmp"
    and g: "get_card_by_id fs st card_id True = Inr (PDict tmp)"
    using get_card_by_id_first_row by blast
  from efold_art[OF t] h have "dict_get tmp ''art'' = Some PNone" by simp
  with g show "\<exists>tmp. get_card_by_id fs st card_id True = Inr (PDict tmp)
           \<and> dict_get tmp ''art'' = Some PNone"
    by blast
qed

text \<open>Identifier 5 is not in the example table; a dictionary cannot be bound; card 1
  has a NULL \<open>ArtId\<close>.\<close>

theorem get_card_by_id_absent_or_null_art_witness:
  "dict_get (connections (ex_reader ''Localizations_enUS'' ''Localizations_enUS''))
      ''CardDatabase'' = Some ex_db
   \<and> is_database ex_db
   \<and> Cards ex_db = Some ex_cards
   \<and> to_sql (PInt 5 :: nat pyval) = Inr (SInt 5) \<and> plain_param (SInt 5)
   \<and> \<not> list_ex (\<lambda>r. sql_eq (col r ''GrpId'') (SInt 5)) ex_cards
   \<and> get_card_by_id [] (ex_reader ''Localizations_enUS'' ''Localizations_enUS'') (PInt 5) True
       = Inr PNone
   \<and> to_sql (PDict [] :: nat pyval) = Inl ProgrammingError
   \<and> get_card_by_id [] (ex_reader ''Localizations_enUS'' ''Localizations_enUS'') (PDict []) True
       = Inl ProgrammingError
   \<and> to_sql (PInt 1 :: nat pyval) = Inr (SInt 1) \<and> plain_param (SInt 1)
   \<and> filter (\<lambda>r. sql_eq (col r ''GrpId'') (SInt 1)) ex_cards = card_row 1 10 SNull # []
   \<and> list_ex (\<lambda>(k, v). written_key k = ''art'') (card_row 1 10 SNull)
   \<and> list_all (\<lambda>(k, v). written_key k = ''art'' \<longrightarrow> v = SNull) (card_row 1 10 SNull)
   \<and> get_card_by_id [] (ex_reader ''Localizations_enUS'' ''Localizations_enUS'') (PInt 1) True
       = Inr (PDict [(''GrpId'', PInt 1), (''title'', PStr ''Lightning Bolt''), (''art'', PNone)])"
proof -
  let ?st = "ex_reader ''Localizations_enUS'' ''Localizations_enUS''"
  have a: "dict_get (connections ?st) ''CardDatabase'' = Some ex_db" by code_simp
  have ib: "is_database ex_db" by code_simp
  have b: "Cards ex_db = Some ex_cards" by code_simp
  have c: "to_sql (PInt 5 :: nat pyval) = Inr (SInt 5)" by simp
  have p5: "plain_param (SInt 5)" by (simp add: plain_param_def)
  have d: "\<not> list_ex (\<lambda>r. sql_eq (col r ''GrpId'') (SInt 5)) ex_cards" by code_simp
  have u: "to_sql (PDict [] :: nat pyval) = Inl ProgrammingError" by simp
  have e: "to_sql (PInt 1 :: nat pyval) = Inr (SInt 1)" by simp
  have p1: "plain_param (SInt 1)" by (simp add: plain_param_def)
  have f: "filter (\<lambda>r. sql_eq (col r ''GrpId'') (SInt 1)) ex_cards = card_row 1 10 SNull # []"
    by code_simp
  have g: "list_ex (\<lambda>(k, v). written_key k = ''art'') (card_row 1 10 SNull)" by code_simp
  have h: "list_all (\<lambda>(k, v). written_key k = ''art'' \<longrightarrow> v = SNull) (card_row 1 10 SNull)"
    by code_simp
  have i: "get_card_by_id [] ?st (PInt 1) True
       = Inr (PDict [(''GrpId'', PInt 1), (''title'', PStr ''Lightning Bolt''), (''art'', PNone)])"
    by code_simp
  from get_card_by_id_absent_or_null_art[of ?st ex_db ex_cards "PInt 5" "SInt 5" "[]" True]
    a ib b c p5 d
  have 1: "get_card_by_id [] ?st (PInt 5) True = Inr PNone" by blast
  from get_card_by_id_absent_or_null_art[of ?st ex_db ex_cards "PDict []" _ "[]" True
      ProgrammingError] a ib b u
  have 2: "get_card_by_id [] ?st (PDict []) True = Inl ProgrammingError" by blast
  from a ib b c p5 d 1 u 2 e p1 f g h i show ?thesis by blast
qed

text \<open>
  The claim as written fails: the integer 2^63 is an identifier that no row of \<open>Cards\<close>
  has, and \<open>get_card_by_id\<close> raises OverflowError for it instead of returning \<open>None\<close>.
\<close>

theorem get_card_by_id_absent_or_null_art_counterexample:
  "\<not> list_ex (\<lambda>r. col r ''GrpId'' = SInt 9223372036854775808) ex_cards
   \<and> get_card_by_id [] (ex_reader ''Localizations_enUS'' ''Localizations_enUS'')
        (PInt 9223372036854775808) True = Inl OverflowError"
  by code_simp

lemma lower_char_not_G: "lower_char c \<noteq> CHR ''G''"
proof
  assume a: "lower_char c = CHR ''G''"
  show False
  proof (cases "CHR ''A'' \<le> c \<and> c \<le> CHR ''Z''")
    case True
    then have r: "65 \<le> (of_char c :: nat)" "(of_char c :: nat) \<le> 90"
      by (simp_all add: less_eq_char_def)
    from a True have "char_of (of_char c + (32::nat)) = CHR ''G''"
      by (simp add: lower_char_def)
    then have "(of_char (char_of (of_char c + (32::nat)) :: char) :: nat) = of_char CHR ''G''"
      by simp
    then have "(of_char c + 32) mod 256 = (71::nat)" by simp
    with r show False by simp
  next
    case False
    with a have "c = CHR ''G''" by (simp add: lower_char_def)
    with False show False by (simp add: less_eq_char_def)
  qed
qed

lemma lower_not_GrpId: "lower s \<noteq> ''GrpId''"
proof
  assume "lower s = ''GrpId''"
  then obtain c cs where "s = c # cs" "lower_char c = CHR ''G''"
    by (cases s) (auto simp: lower_def)
  then show False using lower_char_not_G by blast
qed

lemma GrpId_plain:
  "\<not> contains ''TextId'' ''GrpId''" "\<not> contains ''TitleId'' ''GrpId''"
  "\<not> contains ''AbilityIds'' ''GrpId''" "\<not> contains ''ArtId'' ''GrpId''"
  by code_simp+

lemma written_key_GrpId: "written_key k = ''GrpId'' \<longleftrightarrow> k = ''GrpId''"
proof
  assume "written_key k = ''GrpId''"
  then show "k = ''GrpId''"
    by (auto simp: written_key_def lower_not_GrpId split: if_splits)
next
  assume "k = ''GrpId''"
  then show "written_key k = ''GrpId''" by (simp add: written_key_def GrpId_plain)
qed

lemma efold_GrpId:
  assumes "efold (card_field fs st ga) r tmp = Inr t"
    and "distinct (map fst r)"
  shows "dict_get t ''GrpId''
           = (case map_of r ''GrpId'' of Some v \<Rightarrow> Some (of_sql v)
              | None \<Rightarrow> dict_get tmp ''GrpId'')"
  using assms
proof (induction r arbitrary: tmp)
  case Nil
  then show ?case by simp
next
  case (Cons kv r)
  obtain k v where kv: "kv = (k, v)" by (cases kv)
  obtain t1 where t1: "card_field fs st ga (k, v) tmp = Inr t1" using card_field_total by blast
  with Cons.prems kv have rest: "efold (card_field fs st ga) r t1 = Inr t" by simp
  from Cons.prems kv have d: "distinct (map fst r)" and nk: "k \<notin> fst ` set r" by auto
  note IH = Cons.IH[OF rest d]
  from card_field_shape[OF t1] obtain x where
    x: "t1 = dict_set tmp (written_key k) x"
      "written_key k = k \<and> \<not> contains ''TextId'' k \<and> \<not> contains ''TitleId'' k
         \<and> \<not> contains ''AbilityIds'' k \<and> \<not> contains ''ArtId'' k \<longrightarrow> x = of_sql v"
    by blast
  show ?case
  proof (cases "k = ''GrpId''")
    case True
    then have "written_key k = k" by (simp add: written_key_GrpId)
    with True x have "dict_get t1 ''GrpId'' = Some (of_sql v)"
      by (simp add: dict_get_set GrpId_plain)
    moreover from nk True have "map_of r ''GrpId'' = None"
      by (simp add: map_of_eq_None_iff)
    ultimately show ?thesis using IH True kv by simp
  next
    case False
    then have "written_key k \<noteq> ''GrpId''" by (simp add: written_key_GrpId)
    with x have "dict_get t1 ''GrpId'' = dict_get tmp ''GrpId''" by (simp add: dict_get_set)
    with IH False kv show ?thesis by (cases "map_of r ''GrpId''") simp_all
  qed
qed

lemma to_sql_of_sql: "to_sql (of_sql g :: 'a pyval) = Inr c \<Longrightarrow> c = g"
  by (cases g) (auto split: if_splits)

lemma get_card_by_id_GrpId:
  assumes conn: "dict_get (connections st) ''CardDatabase'' = Some db"
    and cards: "Cards db = Some rows"
    and mem: "linha \<in> set rows"
    and nn: "col linha ''GrpId'' \<noteq> SNull"
    and wf: "\<forall>r \<in> set rows. distinct (map fst r)"
    and res: "get_card_by_id fs st (of_sql (col linha ''GrpId'')) ga = Inr x"
  shows "record_id x = Some (of_sql (col linha ''GrpId''))"
proof -
  let ?g = "col linha ''GrpId''"
  from res conn cards obtain c where c: "to_sql (of_sql ?g :: 'a pyval) = Inr c"
    and idb: "is_database db"
    by (auto simp: get_card_by_id_def ebind_def split: sum.splits if_splits)
  from c have cg: "c = ?g" by (rule to_sql_of_sql)
  have "linha \<in> set (filter (\<lambda>r. sql_eq (col r ''GrpId'') ?g) rows)"
    using mem nn by (simp add: sql_eq_def)
  then obtain r rest where f: "filter (\<lambda>r. sql_eq (col r ''GrpId'') ?g) rows = r # rest"
    by (cases "filter (\<lambda>r. sql_eq (col r ''GrpId'') ?g) rows") auto
  then have "r \<in> set (filter (\<lambda>r. sql_eq (col r ''GrpId'') ?g) rows)" by simp
  then have rm: "r \<in> set rows" and rg: "col r ''GrpId'' = ?g" by (auto simp: sql_eq_def)
  from get_card_by_id_first_row[OF conn idb cards c[unfolded cg] f, of fs ga]
  obtain tmp where t: "efold (card_field fs st ga) r [] = Inr tmp"
    and g: "get_card_by_id fs st (of_sql ?g) ga = Inr (PDict tmp)" by blast
  from wf rm have dr: "distinct (map fst r)" by blast
  from rg nn obtain v where v: "map_of r ''GrpId'' = Some v" "v = ?g"
    by (auto simp: col_def dict_get_def split: option.splits)
  from efold_GrpId[OF t dr] v have "dict_get tmp ''GrpId'' = Some (of_sql ?g)" by simp
  with g res show ?thesis by (simp add: record_id_def)
qed

lemma emap_length: "emap f xs = Inr ys \<Longrightarrow> length ys = length xs"
  by (induction xs arbitrary: ys) (auto split: sum.splits)

lemma emap_all2: "emap f xs = Inr ys \<Longrightarrow> list_all2 (\<lambda>x y. f x = Inr y) xs ys"
  by (induction xs arbitrary: ys) (auto split: sum.splits)

lemma of_sql_inj: "(of_sql a :: 'a pyval) = of_sql b \<Longrightarrow> a = b"
  by (cases a; cases b) auto

lemma select_by_name_sub:
  "\<exists>P m. select_by_name cards locs name limit = take m (filter P cards)"
proof -
  let ?P = "\<lambda>r. sql_in (col r ''TitleId'')
                  (map LocId (filter (\<lambda>l. sql_like name (Loc l)) locs))"
  have "select_by_name cards locs name limit = filter ?P cards
      \<or> (\<exists>m. select_by_name cards locs name limit = take m (filter ?P cards))"
    by (auto simp: select_by_name_def sql_limit_def Let_def split: option.splits)
  moreover have "filter ?P cards = take (length cards) (filter ?P cards)" by simp
  ultimately show ?thesis by metis
qed

lemma select_by_name_limit:
  "0 < n \<Longrightarrow> int (length (select_by_name cards locs name (Some n))) \<le> n"
  by (simp add: select_by_name_def sql_limit_def Let_def)

text \<open>
  C1, as the code has it. For a positive limit \<open>n\<close>, \<open>get_card_by_name\<close> returns at
  most \<open>n\<close> records; and when the rows of \<open>Cards\<close> have pairwise distinct, non-NULL
  \<open>GrpId\<close> values (and each row names its columns once), every returned record carries
  a \<open>GrpId\<close> and these are pairwise distinct.
\<close>

theorem get_card_by_name_limit:
  assumes "get_card_by_name fs st card_name (Some n) get_art = Inr recs"
    and "0 < n"
  shows "int (length recs) \<le> n
       \<and> (\<forall>db cards. dict_get (connections st) ''CardDatabase'' = Some db
              \<and> Cards db = Some cards
              \<and> distinct (map (\<lambda>r. col r ''GrpId'') cards)
              \<and> (\<forall>r \<in> set cards. col r ''GrpId'' \<noteq> SNull \<and> distinct (map fst r))
            \<longrightarrow> distinct (map record_id recs) \<and> (\<forall>rec \<in> set recs. record_id rec \<noteq> None))"
proof -
  from assms(1) obtain db cards locs where conn: "dict_get (connections st) ''CardDatabase'' = Some db"
    and cards: "Cards db = Some cards"
    and em: "emap (\<lambda>linha. get_card_by_id fs st (of_sql (col linha ''GrpId'')) get_art)
               (select_by_name cards locs card_name (Some n)) = Inr recs"
    by (auto simp: get_card_by_name_def split: option.splits if_splits)
  let ?found = "select_by_name cards locs card_name (Some n)"
  have len: "int (length recs) \<le> n"
    using emap_length[OF em] select_by_name_limit[OF assms(2), of cards locs card_name] by simp
  have ids: "distinct (map record_id recs) \<and> (\<forall>rec \<in> set recs. record_id rec \<noteq> None)"
    if dis: "distinct (map (\<lambda>r. col r ''GrpId'') cards)"
      and wf: "\<forall>r \<in> set cards. col r ''GrpId'' \<noteq> SNull \<and> distinct (map fst r)"
  proof -
    obtain P m where fm: "?found = take m (filter P cards)"
      using select_by_name_sub by blast
    have sub: "set ?found \<subseteq> set cards"
      unfolding fm using set_take_subset[of m "filter P cards"] by auto
    have dfound: "distinct (map (\<lambda>r. col r ''GrpId'') ?found)"
      unfolding fm take_map[symmetric]
      by (rule distinct_take) (rule distinct_map_filter[OF dis])
    have each: "list_all2 (\<lambda>linha rec. record_id rec = Some (of_sql (col linha ''GrpId''))) ?found recs"
    proof (rule list.rel_mono_strong[OF emap_all2[OF em]])
      fix linha rec
      assume m: "linha \<in> set ?found"
        and r: "get_card_by_id fs st (of_sql (col linha ''GrpId'')) get_art = Inr rec"
      from m sub have ml: "linha \<in> set cards" by blast
      with wf have nn: "col linha ''GrpId'' \<noteq> SNull" by blast
      from wf have wf': "\<forall>r \<in> set cards. distinct (map fst r)" by blast
      show "record_id rec = Some (of_sql (col linha ''GrpId''))"
        by (rule get_card_by_id_GrpId[OF conn cards ml nn wf' r])
    qed
    then have eq: "map record_id recs = map (\<lambda>linha. Some (of_sql (col linha ''GrpId''))) ?found"
      by (induction rule: list_all2_induct) auto
    have "distinct (map (\<lambda>linha. Some (of_sql (col linha ''GrpId'') :: 'a pyval)) ?found)"
    proof -
      have "inj (\<lambda>g. Some (of_sql g :: 'a pyval))"
        by (rule injI) (auto dest: of_sql_inj)
      then have "distinct (map (\<lambda>g. Some (of_sql g :: 'a pyval)) (map (\<lambda>r. col r ''GrpId'') ?found))"
        using dfound inj_on_subset[of _ UNIV] by (simp only: distinct_map) blast
      then show ?thesis by (simp add: comp_def)
    qed
    with eq have 1: "distinct (map record_id recs)" by simp
    have 2: "\<forall>rec \<in> set recs. record_id rec \<noteq> None"
    proof
      fix rec assume "rec \<in> set recs"
      then have "record_id rec \<in> set (map record_id recs)" by simp
      then show "record_id rec \<noteq> None" unfolding eq by auto
    qed
    from 1 2 show ?thesis by blast
  qed
  from conn cards have "\<forall>db' cards'. dict_get (connections st) ''CardDatabase'' = Some db'
              \<and> Cards db' = Some cards'
              \<and> distinct (map (\<lambda>r. col r ''GrpId'') cards')
              \<and> (\<forall>r \<in> set cards'. col r ''GrpId'' \<noteq> SNull \<and> distinct (map fst r))
            \<longrightarrow> distinct (map record_id recs) \<and> (\<forall>rec \<in> set recs. record_id rec \<noteq> None)"
    using ids by auto
  with len show ?thesis by blast
qed

text \<open>The pattern \<open>%\<close> with limit 2 on the example table of three cards.\<close>

theorem get_card_by_name_limit_witness:
  "get_card_by_name [] (ex_reader ''Localizations_enUS'' ''Localizations_enUS'') ''%'' (Some 2) False
     = Inr [PDict [(''GrpId'', PInt 1), (''title'', PStr ''Lightning Bolt''), (''art'', PNone)],
            PDict [(''GrpId'', PInt 2), (''title'', PStr ''Shock''), (''art'', PInt 123)]]
   \<and> (0::int) < 2
   \<and> dict_get (connections (ex_reader ''Localizations_enUS'' ''Localizations_enUS''))
        ''CardDatabase'' = Some ex_db
   \<and> Cards ex_db = Some ex_cards
   \<and> distinct (map (\<lambda>r. col r ''GrpId'') ex_cards)
   \<and> list_all (\<lambda>r. col r ''GrpId'' \<noteq> SNull \<and> distinct (map fst r)) ex_cards
   \<and> distinct (map record_id
        [PDict [(''GrpId'', PInt 1), (''title'', PStr ''Lightning Bolt''), (''art'', PNone :: nat pyval)],
         PDict [(''GrpId'', PInt 2), (''title'', PStr ''Shock''), (''art'', PInt 123)]])"
proof -
  let ?st = "ex_reader ''Localizations_enUS'' ''Localizations_enUS''"
  let ?recs = "[PDict [(''GrpId'', PInt 1), (''title'', PStr ''Lightning Bolt''), (''art'', PNone :: nat pyval)],
         PDict [(''GrpId'', PInt 2), (''title'', PStr ''Shock''), (''art'', PInt 123)]]"
  have a: "get_card_by_name [] ?st ''%'' (Some 2) False = Inr ?recs" by code_simp
  have b: "(0::int) < 2" by simp
  have c: "dict_get (connections ?st) ''CardDatabase'' = Some ex_db" by code_simp
  have d: "Cards ex_db = Some ex_cards" by code_simp
  have e: "distinct (map (\<lambda>r. col r ''GrpId'') ex_cards)" by code_simp
  have f: "list_all (\<lambda>r. col r ''GrpId'' \<noteq> SNull \<and> distinct (map fst r)) ex_cards"
    by code_simp
  then have f': "\<forall>r \<in> set ex_cards. col r ''GrpId'' \<noteq> SNull \<and> distinct (map fst r)"
    by (simp add: list_all_iff)
  from get_card_by_name_limit[OF a b] c d e f'
  have "distinct (map record_id ?recs)" by blast
  with a b c d e f show ?thesis by blast
qed

text \<open>
  The claim as written fails twice: with limit 0 the query has no \<open>LIMIT\<close> clause and
  the matching card is returned; and on a \<open>Cards\<close> table with two rows of the same
  \<open>GrpId\<close>, two records with that \<open>GrpId\<close> are returned.
\<close>

theorem get_card_by_name_limit_counterexample:
  "get_card_by_name [] (ex_reader ''Localizations_enUS'' ''Localizations_enUS'')
       ''lightning%'' (Some 0) False
     = Inr [PDict [(''GrpId'', PInt 1), (''title'', PStr ''Lightning Bolt''), (''art'', PNone)]]
   \<and> \<not> int (length [PDict [(''GrpId'', PInt 1), (''title'', PStr ''Lightning Bolt''),
                            (''art'', PNone :: nat pyval)]]) \<le> 0
   \<and> get_card_by_name [] dup_reader ''lightning%'' (Some 2) False
     = Inr [PDict [(''GrpId'', PInt 1), (''title'', PStr ''Lightning Bolt''), (''art'', PNone)],
            PDict [(''GrpId'', PInt 1), (''title'', PStr ''Lightning Bolt''), (''art'', PNone)]]
   \<and> \<not> distinct (map record_id
        [PDict [(''GrpId'', PInt 1), (''title'', PStr ''Lightning Bolt''), (''art'', PNone :: nat pyval)],
         PDict [(''GrpId'', PInt 1), (''title'', PStr ''Lightning Bolt''), (''art'', PNone)]])"
proof -
  have a: "get_card_by_name [] (ex_reader ''Localizations_enUS'' ''Localizations_enUS'')
       ''lightning%'' (Some 0) False
     = Inr [PDict [(''GrpId'', PInt 1), (''title'', PStr ''Lightning Bolt''),
                   (''art'', PNone :: nat pyval)]]"
    by code_simp
  have b: "get_card_by_name [] dup_reader ''lightning%'' (Some 2) False
     = Inr [PDict [(''GrpId'', PInt 1), (''title'', PStr ''Lightning Bolt''), (''art'', PNone)],
            PDict [(''GrpId'', PInt 1), (''title'', PStr ''Lightning Bolt''), (''art'', PNone)]]"
    by code_simp
  from a b show ?thesis by simp
qed

end
